theory Spec2Isabelle
  imports Complex_Main "HOL-Library.Multiset"
begin

section \<open>Requests and their outcomes\<close>

text \<open>
  The pages talk to the backend through axios. A request either resolves with the data of
  the response or is rejected with an error object, of which the pages read
  \<^verbatim>\<open>error.name\<close>, \<^verbatim>\<open>error.code\<close>,
  \<^verbatim>\<open>error.response?.status\<close> and \<^verbatim>\<open>error.response?.data?.detail\<close>.
  A network failure or a timeout has no response, so status and detail are absent.
\<close>

record axiosError =
  name :: string
  code :: "string option"
  status :: "nat option"
  detail :: "string option"

datatype 'a settled = Resolved 'a | Rejected axiosError

definition networkError :: axiosError where
  "networkError = \<lparr>name = ''AxiosError'', code = Some ''ERR_NETWORK'', status = None, detail = None\<rparr>"

definition timeoutError :: axiosError where
  "timeoutError = \<lparr>name = ''AxiosError'', code = Some ''ECONNABORTED'', status = None, detail = None\<rparr>"

text \<open>What axios rejects with when the signal of the request is aborted.\<close>

definition canceledError :: axiosError where
  "canceledError = \<lparr>name = ''CanceledError'', code = Some ''ERR_CANCELED'', status = None, detail = None\<rparr>"

section \<open>Hazard alerts on the weather map (WeatherMap.jsx, fetchHazardAlerts)\<close>

record alert =
  event :: string
  severity :: string
  description :: string
  advice :: "string option"
  source :: string

text \<open>The data of the quick-alerts response; \<^verbatim>\<open>top_alerts\<close> may be missing.\<close>

record quickAlerts =
  top_alerts :: "alert list option"

text \<open>
  The toasts of \<^verbatim>\<open>fetchHazardAlerts\<close>: the count of severe alerts found,
  \<^verbatim>\<open>'Please login to view hazard alerts.'\<close>, and the detail of a 403 response.
\<close>

datatype mapToast = SevereAlertsFound nat | PleaseLoginToViewAlerts | ForbiddenDetail string

text \<open>The part of the page's state that \<^verbatim>\<open>fetchHazardAlerts\<close> writes.\<close>

record weatherMap =
  hazardAlerts :: "alert list"
  alertsLoading :: bool
  toasts :: "mapToast list"

text \<open>
  \<^verbatim>\<open>fetchHazardAlerts(lat, lng)\<close>, with the authentication flag of the page and
  the outcome of the one request it sends. \<^verbatim>\<open>!lat || !lng\<close> holds for a zero
  coordinate. The catch block toasts on 401 and on 403 with a non-empty detail and empties
  the list in every case; \<^verbatim>\<open>finally\<close> clears the loading flag.
\<close>

definition fetchHazardAlerts ::
  "real \<Rightarrow> real \<Rightarrow> bool \<Rightarrow> quickAlerts settled \<Rightarrow> weatherMap \<Rightarrow> weatherMap" where
  "fetchHazardAlerts lat lng isAuthenticated outcome st =
     (if lat = 0 \<or> lng = 0 then st
      else if \<not> isAuthenticated then st\<lparr>hazardAlerts := []\<rparr>
      else case outcome of
        Resolved data \<Rightarrow>
          (let alerts = (case top_alerts data of Some found \<Rightarrow> found | None \<Rightarrow> []);
               severeAlerts = filter (\<lambda>alert. severity alert = ''severe''
                                              \<or> severity alert = ''extreme'') alerts
           in st\<lparr>hazardAlerts := alerts,
                 toasts := toasts st @ (if length severeAlerts > 0
                                         then [SevereAlertsFound (length severeAlerts)] else []),
                 alertsLoading := False\<rparr>)
      | Rejected error \<Rightarrow>
          st\<lparr>toasts := toasts st @
                   (if status error = Some 401 then [PleaseLoginToViewAlerts]
                    else case detail error of
                           Some d \<Rightarrow> (if status error = Some 403 \<and> d \<noteq> []
                                      then [ForbiddenDetail d] else [])
                         | None \<Rightarrow> []),
               hazardAlerts := [], alertsLoading := False\<rparr>)"

text \<open>
  What the Hazard Alerts card shows: the spinner while loading, one card per alert when
  there are alerts, and otherwise the check mark with
  \<^verbatim>\<open>No active alerts for this location\<close>.
\<close>

datatype alertsPanel = LoadingAlerts | AlertCards "alert list" | NoActiveAlerts

definition hazardAlertsPanel :: "weatherMap \<Rightarrow> alertsPanel" where
  "hazardAlertsPanel st =
     (if alertsLoading st then LoadingAlerts
      else if length (hazardAlerts st) > 0 then AlertCards (hazardAlerts st)
      else NoActiveAlerts)"

text \<open>A map that still shows a storm warning from the location selected before.\<close>

definition stormWarning :: alert where
  "stormWarning = \<lparr>event = ''Storm Warning'', severity = ''severe'',
     description = ''Gale force winds'', advice = None, source = ''NOAA''\<rparr>"

definition mapWithAlert :: weatherMap where
  "mapWithAlert = \<lparr>hazardAlerts = [stormWarning], alertsLoading = False, toasts = []\<rparr>"

section \<open>Harbor validation and route analysis (RouteAnalysis, HarborSearch.jsx)\<close>

text \<open>
  The answers of the harbor endpoints: the nearest harbor, and the validation of a
  coordinate. The points of a route carry an optional name and type.
\<close>

record harbor =
  name :: string
  lat :: real
  lon :: real
  distance_km :: real

record validation =
  is_valid :: bool
  is_land :: bool
  message :: string
  nearest_harbor :: "harbor option"

record point =
  lat :: real
  lng :: real
  name :: "string option"
  type :: "string option"

text \<open>
  \<^verbatim>\<open>validateHarborLocation(lat, lng)\<close> of the route page and
  \<^verbatim>\<open>validateLocation(lat, lon)\<close> of the harbor search, each with the outcome of
  its request: the data of the response, or the fixed object of the catch block. The
  coordinates (primed here, the plain names being fields) only travel in the request.
\<close>

definition validateHarborLocation :: "real \<Rightarrow> real \<Rightarrow> validation settled \<Rightarrow> validation" where
  "validateHarborLocation lat' lng' outcome =
     (case outcome of
        Resolved data \<Rightarrow> data
      | Rejected error \<Rightarrow>
          \<lparr>is_valid = False, is_land = True,
           message = ''Unable to validate location. Please select a known harbor.'',
           nearest_harbor = None\<rparr>)"

definition validateLocation :: "real \<Rightarrow> real \<Rightarrow> validation settled \<Rightarrow> validation" where
  "validateLocation lat' lon' outcome =
     (case outcome of
        Resolved data \<Rightarrow> data
      | Rejected error \<Rightarrow>
          \<lparr>is_valid = False, is_land = True,
           message = ''Unable to validate location. Please select a known harbor.'',
           nearest_harbor = None\<rparr>)"

text \<open>\<^verbatim>\<open>getNearestHarbor(lat, lng)\<close>: the data of the response, which may be
  null, and null when the request fails.\<close>

definition getNearestHarbor :: "real \<Rightarrow> real \<Rightarrow> harbor option settled \<Rightarrow> harbor option" where
  "getNearestHarbor lat' lng' outcome =
     (case outcome of Resolved data \<Rightarrow> data | Rejected error \<Rightarrow> None)"

text \<open>
  The toasts of the route page, one constructor for each message; the coordinates and
  names the messages print are the arguments.
\<close>

datatype routeToast =
    PleaseLoginFirst
  | SelectBothHarbors
  | BothMustBeValidHarbors
  | CalculatingRoute
  | AnalysisComplete
  | CancelledByUser
  | AnalysisTimedOut
  | ServerError string
  | AnalysisFailed string
  | CancelledSuccessfully
  | SnappedToNearest string
  | CannotSelectLand real real
  | InWaterNotNearHarbor real real
  | StartHarborSelected

text \<open>
  The request of a running analysis, as the page's \<^verbatim>\<open>AbortController\<close> sees it:
  none, sent and pending, or pending with its signal aborted.
\<close>

datatype request = NoRequest | Pending | Aborted

text \<open>
  The state of the route page that the functions below read and write. The type
  \<open>'r\<close> is the data of the analysis response. The centre and zoom of the map, which
  the handlers also set, are left out.
\<close>

record 'r routeAnalysis =
  startPoint :: "point option"
  endPoint :: "point option"
  startValidation :: "validation option"
  endValidation :: "validation option"
  analyzing :: bool
  analysisResult :: "'r option"
  abortController :: "unit option"
  request :: request
  toasts :: "routeToast list"

text \<open>\<^verbatim>\<open>validation?.is_valid\<close> on a stored validation that may be null.\<close>

definition isValid :: "validation option \<Rightarrow> bool" where
  "isValid v = (case v of Some validation \<Rightarrow> is_valid validation | None \<Rightarrow> False)"

text \<open>
  \<^verbatim>\<open>setLocationAsStart(coordinates)\<close>, called for a location handed over by the
  map page: an invalid location is snapped to the nearest harbor when there is one, and is
  stored with its validation otherwise.
\<close>

definition setLocationAsStart ::
  "point \<Rightarrow> validation settled \<Rightarrow> harbor option settled \<Rightarrow> 'r routeAnalysis \<Rightarrow> 'r routeAnalysis" where
  "setLocationAsStart coordinates validated nearestFound st =
     (let validation = validateHarborLocation (lat coordinates) (lng coordinates) validated;
          stored = st\<lparr>startPoint := Some coordinates, startValidation := Some validation\<rparr>
      in if \<not> is_valid validation then
           (case getNearestHarbor (lat coordinates) (lng coordinates) nearestFound of
              Some nearest \<Rightarrow>
                st\<lparr>startPoint := Some \<lparr>lat = harbor.lat nearest, lng = lon nearest,
                                        name = Some (harbor.name nearest), type = Some ''harbor''\<rparr>,
                   startValidation := Some (validation\<lparr>is_valid := True,
                      message := ''Snapped to nearest harbor: '' @ harbor.name nearest\<rparr>)\<rparr>
            | None \<Rightarrow> stored)
         else stored)"

text \<open>
  A handler either returns, or throws after the changes of state it has made so far.
\<close>

datatype 'a handled = Returned 'a | Threw string 'a

text \<open>
  \<^verbatim>\<open>onSelectStart(coordinates)\<close>, the handler of the harbor search field. An
  invalid location without a harbor to snap to is refused with a toast and nothing is
  stored. Where the validation names a nearest harbor the source goes on to call
  \<^verbatim>\<open>toast.info\<close>, which the toast library of the page (react-hot-toast) does not
  have: the call throws a \<^verbatim>\<open>TypeError\<close> after the land toast.
\<close>

definition onSelectStart ::
  "point option \<Rightarrow> validation settled \<Rightarrow> harbor option settled \<Rightarrow> 'r routeAnalysis
     \<Rightarrow> 'r routeAnalysis handled" where
  "onSelectStart selected validated nearestFound st =
     (case selected of
        None \<Rightarrow> Returned (st\<lparr>startPoint := None, startValidation := None\<rparr>)
      | Some coordinates \<Rightarrow>
         (let validation = validateHarborLocation (lat coordinates) (lng coordinates) validated
          in if \<not> is_valid validation then
               (case getNearestHarbor (lat coordinates) (lng coordinates) nearestFound of
                  Some nearest \<Rightarrow>
                    Returned
                      (st\<lparr>startPoint := Some \<lparr>lat = harbor.lat nearest, lng = lon nearest,
                                               name = Some (harbor.name nearest),
                                               type = Some ''harbor''\<rparr>,
                          startValidation := Some (validation\<lparr>is_valid := True,
                             message := ''Snapped to nearest harbor: '' @ harbor.name nearest\<rparr>),
                          toasts := toasts st @ [SnappedToNearest (harbor.name nearest)]\<rparr>)
                | None \<Rightarrow>
                    if is_land validation then
                      (case nearest_harbor validation of
                         Some h \<Rightarrow>
                           Threw ''TypeError: toast.info is not a function''
                             (st\<lparr>toasts := toasts st
                                   @ [CannotSelectLand (lat coordinates) (lng coordinates)]\<rparr>)
                       | None \<Rightarrow>
                           Returned
                             (st\<lparr>toasts := toasts st
                                   @ [CannotSelectLand (lat coordinates) (lng coordinates)]\<rparr>))
                    else
                      Returned
                        (st\<lparr>toasts := toasts st
                              @ [InWaterNotNearHarbor (lat coordinates) (lng coordinates)]\<rparr>))
             else
               Returned
                 (st\<lparr>startPoint := Some \<lparr>lat = lat coordinates, lng = lng coordinates,
                          name = name coordinates,
                          type = (case type coordinates of
                                    Some t \<Rightarrow> (if t = [] then Some ''harbor'' else Some t)
                                  | None \<Rightarrow> Some ''harbor'')\<rparr>,
                     startValidation := Some validation,
                     toasts := toasts st @ [StartHarborSelected]\<rparr>)))"

text \<open>
  \<^verbatim>\<open>analyzeRoute\<close> up to its \<^verbatim>\<open>await\<close>: the three guards, then the
  stored result is cleared, a controller is created and the request is sent. The interval
  that cycles the loading message is left out. The page shows the button that calls it only
  while no analysis is running.
\<close>

definition analyzeRoute_begin :: "bool \<Rightarrow> 'r routeAnalysis \<Rightarrow> 'r routeAnalysis" where
  "analyzeRoute_begin token st =
     (if \<not> token then st\<lparr>toasts := toasts st @ [PleaseLoginFirst]\<rparr>
      else if startPoint st = None \<or> endPoint st = None
        then st\<lparr>toasts := toasts st @ [SelectBothHarbors]\<rparr>
      else if \<not> isValid (startValidation st) \<or> \<not> isValid (endValidation st)
        then st\<lparr>toasts := toasts st @ [BothMustBeValidHarbors]\<rparr>
      else st\<lparr>analyzing := True, analysisResult := None, abortController := Some (),
              request := Pending, toasts := toasts st @ [CalculatingRoute]\<rparr>)"

text \<open>
  \<^verbatim>\<open>cancelAnalysis\<close>: with a controller in the state, its signal is aborted, and
  the flags of the run are reset at once.
\<close>

definition cancelAnalysis :: "'r routeAnalysis \<Rightarrow> 'r routeAnalysis" where
  "cancelAnalysis st =
     (case abortController st of
        Some controller \<Rightarrow>
          st\<lparr>request := (if request st = Pending then Aborted else request st),
             toasts := toasts st @ [CancelledSuccessfully],
             analyzing := False, abortController := None\<rparr>
      | None \<Rightarrow> st)"

text \<open>
  How the awaited request settles: axios rejects a request whose signal is aborted with its
  cancellation error, whatever the network would have delivered.
\<close>

definition settles :: "request \<Rightarrow> 'r settled \<Rightarrow> 'r settled" where
  "settles r delivered = (if r = Aborted then Rejected canceledError else delivered)"

text \<open>
  The rest of \<^verbatim>\<open>analyzeRoute\<close>, run when the request settles: the result is
  stored on success, the catch block picks a toast by the kind of error, and
  \<^verbatim>\<open>finally\<close> resets the flags of the run.
\<close>

definition analyzeRoute_settle :: "'r settled \<Rightarrow> 'r routeAnalysis \<Rightarrow> 'r routeAnalysis" where
  "analyzeRoute_settle delivered st =
     (if request st = NoRequest then st
      else
        (let st' = (case settles (request st) delivered of
             Resolved data \<Rightarrow>
               st\<lparr>analysisResult := Some data, toasts := toasts st @ [AnalysisComplete]\<rparr>
           | Rejected error \<Rightarrow>
               st\<lparr>toasts := toasts st @
                 [if axiosError.name error = ''AbortError'' \<or> axiosError.name error = ''CanceledError''
                    then CancelledByUser
                  else if code error = Some ''ECONNABORTED'' \<or> code error = Some ''TIMEOUT''
                    then AnalysisTimedOut
                  else if status error = Some 500
                    then ServerError (case detail error of
                                        Some d \<Rightarrow> (if d = [] then ''Server error during analysis'' else d)
                                      | None \<Rightarrow> ''Server error during analysis'')
                  else AnalysisFailed (case detail error of
                                         Some d \<Rightarrow> (if d = [] then ''Failed to analyze route'' else d)
                                       | None \<Rightarrow> ''Failed to analyze route'')]\<rparr>)
         in st'\<lparr>analyzing := False, abortController := None, request := NoRequest\<rparr>))"

text \<open>
  A page with two validated harbors and the result of an earlier analysis, and an open-water
  coordinate in the Bay of Bengal.
\<close>

definition validHarbor :: validation where
  "validHarbor = \<lparr>is_valid = True, is_land = False, message = ''Valid harbor'', nearest_harbor = None\<rparr>"

definition chennai :: point where
  "chennai = \<lparr>lat = 13, lng = 80.25, name = Some ''Chennai'', type = Some ''major_harbor''\<rparr>"

definition colombo :: point where
  "colombo = \<lparr>lat = 7, lng = 79.75, name = Some ''Colombo'', type = Some ''major_harbor''\<rparr>"

definition readyPage :: "string routeAnalysis" where
  "readyPage = \<lparr>startPoint = Some chennai, endPoint = Some colombo,
     startValidation = Some validHarbor, endValidation = Some validHarbor,
     analyzing = False, analysisResult = Some ''earlier analysis'', abortController = None,
     request = NoRequest, toasts = []\<rparr>"

definition openSea :: point where
  "openSea = \<lparr>lat = 12.5, lng = 85.5, name = Some ''Location 12.5, 85.5'', type = Some ''location''\<rparr>"

definition emptyPage :: "string routeAnalysis" where
  "emptyPage = \<lparr>startPoint = None, endPoint = None, startValidation = None,
     endValidation = None, analyzing = False, analysisResult = None, abortController = None,
     request = NoRequest, toasts = []\<rparr>"

definition failClosed :: validation where
  "failClosed = \<lparr>is_valid = False, is_land = True,
     message = ''Unable to validate location. Please select a known harbor.'',
     nearest_harbor = None\<rparr>"

section \<open>High-risk area aggregation (HazardAlertsPage, fetchCurrentHighRiskAreas)\<close>

text \<open>
  The hazard page keeps a list of high-risk areas. Each entry is a JavaScript object with
  the fields the page builds itself for the selected location (\<^verbatim>\<open>name\<close>,
  \<^verbatim>\<open>lat\<close>, \<^verbatim>\<open>lon\<close>, \<^verbatim>\<open>display_name\<close>,
  \<^verbatim>\<open>severity\<close>, \<^verbatim>\<open>description\<close>, \<^verbatim>\<open>source\<close>) and,
  for entries delivered by the global feed, the optional \<^verbatim>\<open>disaster_type\<close> that the
  page prints. Whatever else the feed delivers travels in the extension slot of the record:
  the pipeline below is defined on every extension and so cannot read it.

  Coordinates are JavaScript numbers; they are modelled as reals, and the concrete inputs
  used below are dyadic fractions, on which double arithmetic is exact.
\<close>

record area =
  name :: string
  lat :: real
  lon :: real
  display_name :: string
  severity :: string
  description :: string
  source :: string
  disaster_type :: "string option"

text \<open>
  The predicate handed to \<^verbatim>\<open>findIndex\<close> inside the duplicate filter:
  \<^verbatim>\<open>a => Math.abs(a.lat - area.lat) < 0.5 && Math.abs(a.lon - area.lon) < 0.5\<close>.
\<close>

definition near :: "'a area_scheme \<Rightarrow> 'a area_scheme \<Rightarrow> bool" where
  "near a area \<longleftrightarrow> \<bar>lat a - lat area\<bar> < 0.5 \<and> \<bar>lon a - lon area\<bar> < 0.5"

text \<open>
  \<^verbatim>\<open>Array.prototype.findIndex\<close>: the index of the first element satisfying the
  predicate, \<open>-1\<close> when there is none.
\<close>

fun findIndexFrom :: "('a \<Rightarrow> bool) \<Rightarrow> 'a list \<Rightarrow> nat \<Rightarrow> int" where
  "findIndexFrom P [] i = - 1"
| "findIndexFrom P (x # xs) i = (if P x then int i else findIndexFrom P xs (Suc i))"

definition findIndex :: "('a \<Rightarrow> bool) \<Rightarrow> 'a list \<Rightarrow> int" where
  "findIndex P xs = findIndexFrom P xs 0"

text \<open>
  \<^verbatim>\<open>allHighRiskAreas.filter((area, index, self) => index === self.findIndex(...))\<close>:
  the filter callback sees the element, its index and the whole array.
\<close>

definition uniqueAreas :: "'a area_scheme list \<Rightarrow> 'a area_scheme list" where
  "uniqueAreas self =
     map snd (filter (\<lambda>(index, area). int index = findIndex (\<lambda>a. near a area) self)
                     (enumerate 0 self))"

text \<open>
  The object literal \<^verbatim>\<open>{ 'EXTREME': 0, 'SEVERE': 1, 'MODERATE': 2, 'MINOR': 3 }\<close>
  as the map of its own keys.
\<close>

definition severityOrder :: "string \<rightharpoonup> nat" where
  "severityOrder = map_of [(''EXTREME'', 0), (''SEVERE'', 1), (''MODERATE'', 2), (''MINOR'', 3)]"

text \<open>
  A property read on an object literal also finds what the literal inherits from
  \<^verbatim>\<open>Object.prototype\<close>. For a severity string that names such a member the
  comparator below would subtract a function from a number; the theorems about sorting
  exclude these strings.
\<close>

definition objectPrototypeKeys :: "string list" where
  "objectPrototypeKeys =
     [''constructor'', ''hasOwnProperty'', ''isPrototypeOf'', ''propertyIsEnumerable'',
      ''toLocaleString'', ''toString'', ''valueOf'', ''__proto__'',
      ''__defineGetter__'', ''__defineSetter__'', ''__lookupGetter__'', ''__lookupSetter__'']"

text \<open>
  \<^verbatim>\<open>severityOrder[s] || 99\<close>: a missing key is \<^verbatim>\<open>undefined\<close> and
  the number \<open>0\<close> is falsy as well, so both yield \<open>99\<close>.
\<close>

definition severityRank :: "string \<Rightarrow> nat" where
  "severityRank s = (case severityOrder s of None \<Rightarrow> 99 | Some n \<Rightarrow> if n = 0 then 99 else n)"

text \<open>The comparator passed to \<^verbatim>\<open>sort\<close>.\<close>

definition compareAreas :: "'a area_scheme \<Rightarrow> 'a area_scheme \<Rightarrow> int" where
  "compareAreas a b = int (severityRank (severity a)) - int (severityRank (severity b))"

text \<open>
  \<^verbatim>\<open>Array.prototype.sort\<close> is a stable sort; with a comparator that is the
  difference of two keys its result is the stable sort by that key.
\<close>

definition sortedAreas :: "'a area_scheme list \<Rightarrow> 'a area_scheme list" where
  "sortedAreas xs = sort_key (\<lambda>a. severityRank (severity a)) xs"

text \<open>\<^verbatim>\<open>sortedAreas.slice(0, 15)\<close>.\<close>

definition topAreas :: "'a area_scheme list \<Rightarrow> 'a area_scheme list" where
  "topAreas xs = take 15 xs"

text \<open>
  The success path of \<^verbatim>\<open>fetchCurrentHighRiskAreas\<close>: the entries built for the
  selected location come first, the entries of the global feed after them.
\<close>

definition highRiskAreas ::
  "'a area_scheme list \<Rightarrow> 'a area_scheme list \<Rightarrow> 'a area_scheme list" where
  "highRiskAreas currentLocationHighRisk globalHighRiskAreas =
     topAreas (sortedAreas (uniqueAreas (currentLocationHighRisk @ globalHighRiskAreas)))"

text \<open>
  What \<^verbatim>\<open>fetchCurrentHighRiskAreas\<close> stores with
  \<^verbatim>\<open>setCurrentHighRiskAreas\<close>. Without a token the list is emptied. The request
  for the global feed either delivers \<^verbatim>\<open>data.high_risk_areas || []\<close> or fails
  (a response that is not ok, or a rejected request); on failure the entries of the selected
  location are stored as they are.
\<close>

datatype 'a fetched = Fetched 'a | Unavailable

definition fetchCurrentHighRiskAreas ::
  "bool \<Rightarrow> 'a area_scheme list \<Rightarrow> 'a area_scheme list fetched \<Rightarrow> 'a area_scheme list" where
  "fetchCurrentHighRiskAreas token currentLocationHighRisk response =
     (if \<not> token then []
      else case response of
             Fetched globalHighRiskAreas \<Rightarrow> highRiskAreas currentLocationHighRisk globalHighRiskAreas
           | Unavailable \<Rightarrow>
               (if length currentLocationHighRisk > 0 then currentLocationHighRisk else []))"

text \<open>
  The duplicate filter once more, as a recursion over the array that carries the elements
  already passed; \<open>uniqueAreas_firstSeen\<close> below shows that it computes the same list.
  It is used in the proofs only.
\<close>

fun firstSeen :: "'a area_scheme list \<Rightarrow> 'a area_scheme list \<Rightarrow> 'a area_scheme list" where
  "firstSeen seen [] = []"
| "firstSeen seen (x # xs) =
     (if \<exists>a\<in>set seen. near a x then firstSeen (seen @ [x]) xs
      else x # firstSeen (seen @ [x]) xs)"

subsection \<open>Concrete feeds\<close>

text \<open>A moderate earthquake reported by one provider and an extreme storm reported by
  another, a quarter of a degree away.\<close>

definition quakeUSGS :: area where
  "quakeUSGS = \<lparr>name = ''M 5.1 Earthquake'', lat = 10, lon = 10,
     display_name = ''MODERATE: M 5.1 Earthquake'', severity = ''MODERATE'',
     description = ''Magnitude 5.1'', source = ''USGS'', disaster_type = Some ''Earthquake''\<rparr>"

definition stormGDACS :: area where
  "stormGDACS = \<lparr>name = ''Tropical Storm'', lat = 41 / 4, lon = 41 / 4,
     display_name = ''EXTREME: Tropical Storm'', severity = ''EXTREME'',
     description = ''Red alert'', source = ''GDACS'', disaster_type = Some ''Storm''\<rparr>"

text \<open>A feed whose entries also carry the time they were issued.\<close>

record timed_area = area +
  issued :: nat

definition olderSevere :: timed_area where
  "olderSevere = \<lparr>name = ''Flood'', lat = 10, lon = 10, display_name = ''SEVERE: Flood'',
     severity = ''SEVERE'', description = ''River flood'', source = ''GDACS'',
     disaster_type = Some ''Flood'', issued = 100\<rparr>"

definition newerSevere :: timed_area where
  "newerSevere = \<lparr>name = ''Wildfire'', lat = 20, lon = 20, display_name = ''SEVERE: Wildfire'',
     severity = ''SEVERE'', description = ''Forest fire'', source = ''NASA'',
     disaster_type = Some ''Wildfire'', issued = 200\<rparr>"

text \<open>The entry the page builds for a selected location with a severe alert, and an
  extreme cyclone of the global feed a quarter of a degree from it.\<close>

definition hereSevere :: area where
  "hereSevere = \<lparr>name = ''Current Location: Jaffna'', lat = 19 / 2, lon = 80,
     display_name = ''CURRENT: Jaffna'', severity = ''SEVERE'',
     description = ''2 active alerts at your selected location'', source = ''Your Location'',
     disaster_type = None\<rparr>"

definition cycloneGDACS :: area where
  "cycloneGDACS = \<lparr>name = ''Cyclone'', lat = 39 / 4, lon = 321 / 4,
     display_name = ''EXTREME: Cyclone'', severity = ''EXTREME'',
     description = ''Red alert'', source = ''GDACS'', disaster_type = Some ''Cyclone''\<rparr>"

text \<open>Fifteen severe events one degree apart, and one extreme earthquake far from all
  of them.\<close>

definition severeAt :: "nat \<Rightarrow> area" where
  "severeAt i = \<lparr>name = ''Severe storm'', lat = real i, lon = real i,
     display_name = ''SEVERE: Severe storm'', severity = ''SEVERE'',
     description = ''Storm warning'', source = ''NOAA'', disaster_type = Some ''Storm''\<rparr>"

definition fifteenSevere :: "area list" where
  "fifteenSevere = map severeAt [1..<16]"

definition extremeQuake :: area where
  "extremeQuake = \<lparr>name = ''M 8.0 Earthquake'', lat = 40, lon = 40,
     display_name = ''EXTREME: M 8.0 Earthquake'', severity = ''EXTREME'',
     description = ''Magnitude 8.0'', source = ''USGS'', disaster_type = Some ''Earthquake''\<rparr>"

text \<open>Two providers: the first reports two moderate events three quarters of a degree
  apart, the second a severe event between them.\<close>

definition moderateWest :: area where
  "moderateWest = \<lparr>name = ''Flood West'', lat = 10, lon = 20,
     display_name = ''MODERATE: Flood West'', severity = ''MODERATE'',
     description = ''Orange alert'', source = ''GDACS'', disaster_type = Some ''Flood''\<rparr>"

definition moderateEast :: area where
  "moderateEast = \<lparr>name = ''Flood East'', lat = 43 / 4, lon = 20,
     display_name = ''MODERATE: Flood East'', severity = ''MODERATE'',
     description = ''Orange alert'', source = ''GDACS'', disaster_type = Some ''Flood''\<rparr>"

definition severeMiddle :: area where
  "severeMiddle = \<lparr>name = ''M 6.4 Earthquake'', lat = 83 / 8, lon = 20,
     display_name = ''SEVERE: M 6.4 Earthquake'', severity = ''SEVERE'',
     description = ''Magnitude 6.4'', source = ''USGS'', disaster_type = Some ''Earthquake''\<rparr>"

text \<open>A feed in every order of severity, for the sorting theorem.\<close>

definition mixedFeed :: "area list" where
  "mixedFeed = [moderateWest, severeAt 1, severeAt 3 \<lparr>severity := ''MINOR''\<rparr>,
                severeAt 5 \<lparr>severity := ''LOW''\<rparr>, severeAt 7]"


section \<open>The safety verdict of the chat page (simplifyBasicGPTResponse)\<close>

text \<open>
  A JavaScript string is a sequence of UTF-16 code units; ASCII text is written with
  \<open>js\<close>.
\<close>

type_synonym jsstring = "nat list"

definition js :: "string \<Rightarrow> jsstring" where
  "js s = map of_char s"

text \<open>The icons of the verdicts: U+2705, U+26A0 U+FE0F, U+274C, and U+2139 U+FE0F.\<close>

definition checkMark :: jsstring where "checkMark = [0x2705]"
definition warningSign :: jsstring where "warningSign = [0x26A0, 0xFE0F]"
definition crossMark :: jsstring where "crossMark = [0x274C]"
definition infoSign :: jsstring where "infoSign = [0x2139, 0xFE0F]"

subsection \<open>Regular expressions\<close>

text \<open>
  The patterns of the source are matched by backtracking. Each piece of a pattern is a
  function that takes what follows it in the pattern (a continuation on the rest of the
  input) and tries its alternatives in the order of the engine; \<open>None\<close> is failure.

  Under the flag \<^verbatim>\<open>i\<close> two code units match when they canonicalize to the same
  code unit. The patterns of this file consist of ASCII characters and of the icons above,
  none of which is the upper case of another code unit, so upper-casing the ASCII letters is
  all that canonicalization has to do here.
\<close>

definition canonicalize :: "nat \<Rightarrow> nat" where
  "canonicalize c = (if 97 \<le> c \<and> c \<le> 122 then c - 32 else c)"

text \<open>The classes \<^verbatim>\<open>.\<close> (all but the line terminators), \<^verbatim>\<open>\s\<close> and
  \<^verbatim>\<open>\d\<close>.\<close>

definition isLineTerminator :: "nat \<Rightarrow> bool" where
  "isLineTerminator c \<longleftrightarrow> c = 0x0A \<or> c = 0x0D \<or> c = 0x2028 \<or> c = 0x2029"

definition isSpace :: "nat \<Rightarrow> bool" where
  "isSpace c \<longleftrightarrow>
     c = 0x09 \<or> c = 0x0A \<or> c = 0x0B \<or> c = 0x0C \<or> c = 0x0D \<or> c = 0x20 \<or> c = 0xA0
     \<or> c = 0x1680 \<or> (0x2000 \<le> c \<and> c \<le> 0x200A) \<or> c = 0x2028 \<or> c = 0x2029
     \<or> c = 0x202F \<or> c = 0x205F \<or> c = 0x3000 \<or> c = 0xFEFF"

definition isDigit :: "nat \<Rightarrow> bool" where
  "isDigit c \<longleftrightarrow> 48 \<le> c \<and> c \<le> 57"

definition orElse :: "'a option \<Rightarrow> 'a option \<Rightarrow> 'a option" where
  "orElse first second = (case first of Some r \<Rightarrow> Some r | None \<Rightarrow> second)"

text \<open>A literal, compared exactly and under the flag \<^verbatim>\<open>i\<close>.\<close>

fun lit :: "jsstring \<Rightarrow> (jsstring \<Rightarrow> 'a option) \<Rightarrow> jsstring \<Rightarrow> 'a option" where
  "lit [] k s = k s"
| "lit (p # ps) k [] = None"
| "lit (p # ps) k (c # cs) = (if p = c then lit ps k cs else None)"

fun litCI :: "jsstring \<Rightarrow> (jsstring \<Rightarrow> 'a option) \<Rightarrow> jsstring \<Rightarrow> 'a option" where
  "litCI [] k s = k s"
| "litCI (p # ps) k [] = None"
| "litCI (p # ps) k (c # cs) =
     (if canonicalize p = canonicalize c then litCI ps k cs else None)"

text \<open>A group of literal alternatives \<^verbatim>\<open>(a|b|c)\<close>, tried from left to right; the
  continuation receives the text the group matched.\<close>

fun altCI ::
  "jsstring list \<Rightarrow> (jsstring \<Rightarrow> jsstring \<Rightarrow> 'a option) \<Rightarrow> jsstring \<Rightarrow> 'a option" where
  "altCI [] k s = None"
| "altCI (p # ps) k s = orElse (litCI p (k (take (length p) s)) s) (altCI ps k s)"

text \<open>\<^verbatim>\<open>.*?\<close>: as few characters as possible, none of them a line terminator.\<close>

fun dotLazy :: "(jsstring \<Rightarrow> 'a option) \<Rightarrow> jsstring \<Rightarrow> 'a option" where
  "dotLazy k [] = k []"
| "dotLazy k (c # cs) =
     orElse (k (c # cs)) (if isLineTerminator c then None else dotLazy k cs)"

text \<open>\<^verbatim>\<open>x*\<close> and \<^verbatim>\<open>x+\<close> for a class \<open>x\<close>: as many characters as
  possible, giving them back one at a time; the continuation receives the text matched.\<close>

fun starFrom ::
  "(nat \<Rightarrow> bool) \<Rightarrow> (jsstring \<Rightarrow> jsstring \<Rightarrow> 'a option) \<Rightarrow> jsstring \<Rightarrow> jsstring \<Rightarrow> 'a option" where
  "starFrom P k taken [] = k taken []"
| "starFrom P k taken (c # cs) =
     (if P c then orElse (starFrom P k (taken @ [c]) cs) (k taken (c # cs))
      else k taken (c # cs))"

definition zeroOrMore :: "(nat \<Rightarrow> bool) \<Rightarrow> (jsstring \<Rightarrow> jsstring \<Rightarrow> 'a option) \<Rightarrow> jsstring \<Rightarrow> 'a option" where
  "zeroOrMore P k s = starFrom P k [] s"

definition oneOrMore :: "(nat \<Rightarrow> bool) \<Rightarrow> (jsstring \<Rightarrow> jsstring \<Rightarrow> 'a option) \<Rightarrow> jsstring \<Rightarrow> 'a option" where
  "oneOrMore P k s = (case s of [] \<Rightarrow> None | c # cs \<Rightarrow> if P c then starFrom P k [c] cs else None)"

text \<open>A pattern without \<^verbatim>\<open>^\<close> is tried at every position from the left.\<close>

fun search :: "(jsstring \<Rightarrow> 'a option) \<Rightarrow> jsstring \<Rightarrow> 'a option" where
  "search m [] = m []"
| "search m (c # cs) = orElse (m (c # cs)) (search m cs)"

text \<open>The end of a pattern without capture, and the truth value of a match.\<close>

definition accept :: "jsstring \<Rightarrow> unit option" where
  "accept rest = Some ()"

definition found :: "unit option \<Rightarrow> bool" where
  "found r \<longleftrightarrow> r \<noteq> None"

text \<open>\<^verbatim>\<open>String.prototype.includes\<close>.\<close>

definition js_includes :: "jsstring \<Rightarrow> jsstring \<Rightarrow> bool" where
  "js_includes s p = found (search (lit p accept) s)"

subsection \<open>Numbers and case\<close>

text \<open>
  \<^verbatim>\<open>parseInt\<close> on a run of decimal digits, and the decimal numeral that a
  template literal prints for a number. JavaScript numbers are doubles: both functions are
  exact for counts below \<open>2^53\<close>.
\<close>

definition parseInt :: "jsstring \<Rightarrow> nat" where
  "parseInt digits = foldl (\<lambda>n c. 10 * n + (c - 48)) 0 digits"

fun numberToString :: "nat \<Rightarrow> jsstring" where
  "numberToString n =
     (if n < 10 then [48 + n] else numberToString (n div 10) @ [48 + n mod 10])"

declare numberToString.simps [simp del]

text \<open>
  \<^verbatim>\<open>toUpperCase\<close>, applied in the source to the text matched by
  \<^verbatim>\<open>(SAFE|NOT SAFE|UNSAFE)\<close> only, which is ASCII.
\<close>

definition toUpperCase :: "jsstring \<Rightarrow> jsstring" where
  "toUpperCase s = map canonicalize s"

text \<open>
  \<^verbatim>\<open>toLowerCase\<close>. The lower-cased response is only searched for ASCII text. Two
  code units outside ASCII have a lower case with an ASCII letter in it, U+0130 and the
  Kelvin sign U+212A; every other one is left as it is here, its lower case being outside
  ASCII as well.
\<close>

definition lowerUnit :: "nat \<Rightarrow> jsstring" where
  "lowerUnit c =
     (if 65 \<le> c \<and> c \<le> 90 then [c + 32]
      else if c = 0x0130 then [0x69, 0x0307]
      else if c = 0x212A then [0x6B]
      else [c])"

definition toLowerCase :: "jsstring \<Rightarrow> jsstring" where
  "toLowerCase s = concat (map lowerUnit s)"

subsection \<open>The branch for safety queries\<close>

text \<open>
  The test that opens the branch:
  \<^verbatim>\<open>response.match(/(?:safe|safety).*?(?:to go|travel|visit)/i) ||
  response.includes('Risk Level:') || response.includes('INTELLIGENT SAFETY ANALYSIS')\<close>.
\<close>

definition isSafetyQuery :: "jsstring \<Rightarrow> bool" where
  "isSafetyQuery response \<longleftrightarrow>
     found (search (altCI [js ''safe'', js ''safety'']
                     (\<lambda>_. dotLazy (altCI [js ''to go'', js ''travel'', js ''visit''] (\<lambda>_. accept))))
              response)
     \<or> js_includes response (js ''Risk Level:'')
     \<or> js_includes response (js ''INTELLIGENT SAFETY ANALYSIS'')"

text \<open>
  \<^verbatim>\<open>response.match(/AFFECTING DISASTERS.*?\((\d+)\s+total\)/i)\<close>, yielding the
  digits of the group, and the count read from them (zero without a match).
\<close>

definition hasActiveDisasters :: "jsstring \<Rightarrow> jsstring option" where
  "hasActiveDisasters response =
     search (litCI (js ''AFFECTING DISASTERS'')
              (dotLazy (litCI (js ''('')
                (oneOrMore isDigit (\<lambda>digits.
                   oneOrMore isSpace (\<lambda>_. litCI (js ''total)'') (\<lambda>_. Some digits)))))))
       response"

definition disasterCount :: "jsstring \<Rightarrow> nat" where
  "disasterCount response =
     (case hasActiveDisasters response of Some digits \<Rightarrow> parseInt digits | None \<Rightarrow> 0)"

text \<open>\<^verbatim>\<open>/NOT RECOMMENDED|avoid travel|do not recommend|currently assessed as
  unsafe|exercise caution and avoid/i\<close>.\<close>

definition explicitlyUnsafe :: "jsstring \<Rightarrow> bool" where
  "explicitlyUnsafe response \<longleftrightarrow>
     found (search (altCI [js ''NOT RECOMMENDED'', js ''avoid travel'', js ''do not recommend'',
                           js ''currently assessed as unsafe'', js ''exercise caution and avoid'']
                     (\<lambda>_. accept)) response)"

text \<open>
  The header of a verdict, \<^verbatim>\<open>/^(icon)\s*(SAFE|NOT SAFE|UNSAFE)\s*-\s*/i\<close> with the
  three icons for \<^verbatim>\<open>icon\<close>: the icon and the word matched.
\<close>

definition mainSafetyVerdict :: "jsstring \<Rightarrow> (jsstring \<times> jsstring) option" where
  "mainSafetyVerdict response =
     altCI [checkMark, warningSign, crossMark] (\<lambda>icon.
       zeroOrMore isSpace (\<lambda>_.
         altCI [js ''SAFE'', js ''NOT SAFE'', js ''UNSAFE''] (\<lambda>verdict.
           zeroOrMore isSpace (\<lambda>_.
             litCI (js ''-'') (zeroOrMore isSpace (\<lambda>_ _. Some (icon, verdict)))))))
       response"

text \<open>\<^verbatim>\<open>/Risk Level:\s*HIGH/i\<close> and its two siblings.\<close>

definition riskLevel :: "jsstring \<Rightarrow> jsstring \<Rightarrow> bool" where
  "riskLevel level response \<longleftrightarrow>
     found (search (litCI (js ''Risk Level:'') (zeroOrMore isSpace (\<lambda>_. litCI level accept))) response)"

definition hasHighRisk :: "jsstring \<Rightarrow> bool" where
  "hasHighRisk response = riskLevel (js ''HIGH'') response"

definition hasMediumRisk :: "jsstring \<Rightarrow> bool" where
  "hasMediumRisk response = riskLevel (js ''MEDIUM'') response"

definition hasLowRisk :: "jsstring \<Rightarrow> bool" where
  "hasLowRisk response = riskLevel (js ''LOW'') response"

text \<open>\<^verbatim>\<open>/Earthquake|Storm|Typhoon|Tsunami|Flood|Hurricane/i\<close>.\<close>

definition hasDisasterKeywords :: "jsstring \<Rightarrow> bool" where
  "hasDisasterKeywords response \<longleftrightarrow>
     found (search (altCI [js ''Earthquake'', js ''Storm'', js ''Typhoon'', js ''Tsunami'',
                           js ''Flood'', js ''Hurricane''] (\<lambda>_. accept)) response)"

text \<open>The keyword tests of the fallback, on the lower-cased response.\<close>

definition mentionsMagnitude :: "jsstring \<Rightarrow> bool" where
  "mentionsMagnitude responseLower \<longleftrightarrow>
     found (search (\<lambda>s. orElse (litCI (js ''magnitude'') accept s)
                            (litCI (js ''m '')
                               (oneOrMore isDigit (\<lambda>_. litCI (js ''.'') (oneOrMore isDigit (\<lambda>_. accept)))) s))
              responseLower)"

definition mentionsAny :: "string list \<Rightarrow> jsstring \<Rightarrow> bool" where
  "mentionsAny words responseLower \<longleftrightarrow>
     found (search (altCI (map js words) (\<lambda>_. accept)) responseLower)"

text \<open>\<^verbatim>\<open>/no (earthquake|disaster|storm|flood|typhoon|hazard)/i\<close>.\<close>

definition mentionsNoHazard :: "jsstring \<Rightarrow> bool" where
  "mentionsNoHazard responseLower \<longleftrightarrow>
     found (search (litCI (js ''no '')
                     (altCI [js ''earthquake'', js ''disaster'', js ''storm'', js ''flood'',
                             js ''typhoon'', js ''hazard''] (\<lambda>_. accept)))
              responseLower)"

text \<open>
  The body of the branch, from the priority check for active disasters down to the neutral
  message. Every \<^verbatim>\<open>return\<close> of the source is one result here.
\<close>

definition safetyVerdict :: "jsstring \<Rightarrow> jsstring" where
  "safetyVerdict response =
     (if disasterCount response > 0 then
        crossMark @ js '' UNSAFE - '' @ numberToString (disasterCount response)
          @ js '' active disaster(s) affecting this location''
      else if explicitlyUnsafe response then crossMark @ js '' UNSAFE - Travel not recommended''
      else case mainSafetyVerdict response of
        Some (icon, matchedVerdict) \<Rightarrow>
          (let verdict = toUpperCase matchedVerdict in
           if icon = crossMark \<or> js_includes verdict (js ''UNSAFE'')
             then crossMark @ js '' UNSAFE - Travel to this location''
           else if icon = warningSign \<or> js_includes verdict (js ''NOT SAFE'')
             then warningSign @ js '' NOT SAFE - Exercise caution''
           else checkMark @ js '' SAFE - Low Risk for Travel'')
      | None \<Rightarrow>
          if hasHighRisk response then crossMark @ js '' UNSAFE - High Risk for Travel''
          else if hasMediumRisk response then
            (if hasDisasterKeywords response
               then warningSign @ js '' NOT SAFE - Medium risk with active hazards''
             else warningSign @ js '' SAFE - Medium Risk (Exercise Caution)'')
          else if hasLowRisk response then checkMark @ js '' SAFE - Low Risk for Travel''
          else
            (let responseLower = toLowerCase response in
             if js_includes responseLower (js ''earthquake'') \<and> mentionsMagnitude responseLower
               then crossMark @ js '' UNSAFE - Active earthquake reported''
             else if mentionsAny [''storm'', ''typhoon'', ''hurricane'', ''cyclone''] responseLower
                     \<and> \<not> js_includes responseLower (js ''no active storm'')
               then crossMark @ js '' UNSAFE - Active storm/typhoon reported''
             else if mentionsAny [''flood'', ''tsunami''] responseLower
                     \<and> \<not> js_includes responseLower (js ''no flood'')
               then warningSign @ js '' NOT SAFE - Active flood/water hazard reported''
             else if mentionsNoHazard responseLower
                     \<or> js_includes responseLower (js ''safe to'')
                     \<or> js_includes responseLower (js ''currently safe'')
               then checkMark @ js '' SAFE - Low Risk for Travel''
             else infoSign @ warningSign
                    @ js '' Safety assessment unclear - please review details:'' @ [10, 10]
                    @ take 300 response @ js ''...''))"

text \<open>
  The last branch of \<^verbatim>\<open>simplifyBasicGPTResponse\<close>, reached for a response of the
  basic model on which the extractions of weather, route and disaster list before it did
  not return: a safety query is replaced by its verdict, any other response is returned as
  it is.
\<close>

definition safetyQuerySummary :: "jsstring \<Rightarrow> jsstring" where
  "safetyQuerySummary response =
     (if isSafetyQuery response then safetyVerdict response else response)"


subsection \<open>More of the regular expressions, and string helpers\<close>

text \<open>
  \<^verbatim>\<open>.*?\<close> and \<^verbatim>\<open>.+?\<close> under the flag \<^verbatim>\<open>s\<close>, where the dot matches
  every code unit: as few as possible; the continuation receives the text matched.
\<close>

fun anyLazyFrom ::
  "(jsstring \<Rightarrow> jsstring \<Rightarrow> 'a option) \<Rightarrow> jsstring \<Rightarrow> jsstring \<Rightarrow> 'a option" where
  "anyLazyFrom k taken [] = k taken []"
| "anyLazyFrom k taken (c # cs) = orElse (k taken (c # cs)) (anyLazyFrom k (taken @ [c]) cs)"

definition anyLazy :: "(jsstring \<Rightarrow> jsstring \<Rightarrow> 'a option) \<Rightarrow> jsstring \<Rightarrow> 'a option" where
  "anyLazy k s = anyLazyFrom k [] s"

definition anyLazy1 :: "(jsstring \<Rightarrow> jsstring \<Rightarrow> 'a option) \<Rightarrow> jsstring \<Rightarrow> 'a option" where
  "anyLazy1 k s = (case s of [] \<Rightarrow> None | c # cs \<Rightarrow> anyLazyFrom k [c] cs)"

text \<open>An optional literal \<^verbatim>\<open>x?\<close>: with it first, then without.\<close>

definition optLit :: "jsstring \<Rightarrow> (jsstring \<Rightarrow> 'a option) \<Rightarrow> jsstring \<Rightarrow> 'a option" where
  "optLit p k s = orElse (lit p k s) (k s)"

text \<open>The test of a lookahead for a literal.\<close>

definition startsWith :: "jsstring \<Rightarrow> jsstring \<Rightarrow> bool" where
  "startsWith p s \<longleftrightarrow> take (length p) s = p"

text \<open>
  The text of a whole match: a pattern is given the continuation that returns the rest of
  the input, and the match is what lies before that rest.
\<close>

definition wholeMatch ::
  "((jsstring \<Rightarrow> jsstring option) \<Rightarrow> jsstring \<Rightarrow> jsstring option) \<Rightarrow> jsstring \<Rightarrow> jsstring option" where
  "wholeMatch pattern s =
     (case pattern Some s of
        Some rest \<Rightarrow> Some (take (length s - length rest) s)
      | None \<Rightarrow> None)"

text \<open>
  \<^verbatim>\<open>String.prototype.match\<close> with a pattern under the flag \<^verbatim>\<open>g\<close>: all
  matches from left to right, each search starting where the match before it ended
  (\<open>skip\<close> counts the code units of that match still to pass). The patterns used here
  match no empty text. No match at all is the empty list, for the \<^verbatim>\<open>null\<close> of
  the source.
\<close>

fun matchAllFrom :: "(jsstring \<Rightarrow> jsstring option) \<Rightarrow> nat \<Rightarrow> jsstring \<Rightarrow> jsstring list" where
  "matchAllFrom m skip [] = []"
| "matchAllFrom m skip (c # cs) =
     (if skip > 0 then matchAllFrom m (skip - 1) cs
      else case m (c # cs) of
             Some matched \<Rightarrow> matched # matchAllFrom m (length matched - 1) cs
           | None \<Rightarrow> matchAllFrom m 0 cs)"

definition matchAll ::
  "((jsstring \<Rightarrow> jsstring option) \<Rightarrow> jsstring \<Rightarrow> jsstring option) \<Rightarrow> jsstring \<Rightarrow> jsstring list" where
  "matchAll pattern s = matchAllFrom (wholeMatch pattern) 0 s"

text \<open>\<^verbatim>\<open>trim\<close> (it removes what \<^verbatim>\<open>\s\<close> matches),
  \<^verbatim>\<open>split('\n')\<close> and \<^verbatim>\<open>join('\n')\<close>.\<close>

definition trim :: "jsstring \<Rightarrow> jsstring" where
  "trim s = rev (dropWhile isSpace (rev (dropWhile isSpace s)))"

fun splitLines :: "jsstring \<Rightarrow> jsstring list" where
  "splitLines [] = [[]]"
| "splitLines (c # cs) =
     (if c = 10 then [] # splitLines cs
      else case splitLines cs of
             line # lines \<Rightarrow> (c # line) # lines
           | [] \<Rightarrow> [[c]])"

fun joinLines :: "jsstring list \<Rightarrow> jsstring" where
  "joinLines [] = []"
| "joinLines [line] = line"
| "joinLines (line # lines) = line @ [10] @ joinLines lines"

subsection \<open>The branches before the safety queries\<close>

text \<open>
  For a message that was not produced by the basic model the response is kept, except that a
  leading safe header is removed when the text says unsafe or high risk:
  \<^verbatim>\<open>response.replace(/^(check mark)\s*SAFE\s*-\s*Low Risk for Travel\s*\n*/i, '')\<close>.
\<close>

definition removeSafeHeader :: "jsstring \<Rightarrow> jsstring" where
  "removeSafeHeader response =
     (case litCI checkMark
             (zeroOrMore isSpace (\<lambda>_.
                litCI (js ''SAFE'')
                  (zeroOrMore isSpace (\<lambda>_.
                     litCI (js ''-'')
                       (zeroOrMore isSpace (\<lambda>_.
                          litCI (js ''Low Risk for Travel'')
                            (zeroOrMore isSpace (\<lambda>_.
                               zeroOrMore (\<lambda>c. c = 10) (\<lambda>_ rest. Some rest)))))))))
             response of
        Some rest \<Rightarrow> rest
      | None \<Rightarrow> response)"

definition advancedResponse :: "jsstring \<Rightarrow> jsstring" where
  "advancedResponse response =
     (if js_includes response (js ''Safety Status: '' @ crossMark @ js '' UNSAFE'')
         \<or> js_includes response (js ''Risk Level: HIGH'')
      then removeSafeHeader response else response)"

text \<open>
  The weather extraction. The pattern
  \<^verbatim>\<open>/Current weather.*?in\s+([^:]+):\s*[-\n\s]*(Temperature:.*?)(?=\n\n|$)/is\<close> yields
  the place and the details; of the non-blank lines of the details those naming one of seven
  measurements are kept, and if any is kept the summary is returned.
\<close>

definition weatherMatch :: "jsstring \<Rightarrow> (jsstring \<times> jsstring) option" where
  "weatherMatch response =
     search (litCI (js ''Current weather'')
       (anyLazy (\<lambda>_.
          litCI (js ''in'')
            (oneOrMore isSpace (\<lambda>_.
               oneOrMore (\<lambda>c. c \<noteq> 58) (\<lambda>place.
                 litCI (js '':'')
                   (zeroOrMore isSpace (\<lambda>_.
                      zeroOrMore (\<lambda>c. c = 45 \<or> c = 10 \<or> isSpace c) (\<lambda>_.
                        altCI [js ''Temperature:''] (\<lambda>heading.
                          anyLazy (\<lambda>body rest.
                            if startsWith [10, 10] rest \<or> rest = []
                            then Some (place, heading @ body) else None)))))))))))
       response"

definition isEssentialWeather :: "jsstring \<Rightarrow> bool" where
  "isEssentialWeather line \<longleftrightarrow>
     js_includes line (js ''Temperature:'') \<or> js_includes line (js ''Condition:'')
     \<or> js_includes line (js ''Wind:'') \<or> js_includes line (js ''Humidity:'')
     \<or> js_includes line (js ''Pressure:'') \<or> js_includes line (js ''Visibility:'')
     \<or> js_includes line (js ''Wave Height:'')"

definition weatherSummary :: "jsstring \<Rightarrow> jsstring option" where
  "weatherSummary response =
     (case weatherMatch response of
        None \<Rightarrow> None
      | Some (place, details) \<Rightarrow>
          (let lines = filter (\<lambda>line. trim line \<noteq> []) (splitLines details);
               essentialWeather = joinLines (filter isEssentialWeather lines)
           in if essentialWeather \<noteq> []
              then Some (js ''Current weather in '' @ trim place @ js '':'' @ [10] @ essentialWeather)
              else None))"

text \<open>
  The route extraction. The pattern
  \<^verbatim>\<open>/(?:BEST ROUTE|Route Analysis).*?from\s+(.+?)\s+to\s+(.+?):\s*(.*?)(?=\n\n[A-Z]|$)/is\<close>
  yields the two harbors and the content; four fields are read from the content with
  patterns like \<^verbatim>\<open>/Distance:\s*([^\n]+)/i\<close>, and the summary is returned if the
  distance or the description was found.
\<close>

definition routeMatch :: "jsstring \<Rightarrow> (jsstring \<times> jsstring \<times> jsstring) option" where
  "routeMatch response =
     search (altCI [js ''BEST ROUTE'', js ''Route Analysis''] (\<lambda>_.
       anyLazy (\<lambda>_.
         litCI (js ''from'')
           (oneOrMore isSpace (\<lambda>_.
              anyLazy1 (\<lambda>origin.
                oneOrMore isSpace (\<lambda>_.
                  litCI (js ''to'')
                    (oneOrMore isSpace (\<lambda>_.
                       anyLazy1 (\<lambda>destination.
                         litCI (js '':'')
                           (zeroOrMore isSpace (\<lambda>_.
                              anyLazy (\<lambda>routeContent rest.
                                if rest = []
                                   \<or> (case rest of
                                         a # b # c # _ \<Rightarrow>
                                           a = 10 \<and> b = 10
                                           \<and> 65 \<le> canonicalize c \<and> canonicalize c \<le> 90
                                       | _ \<Rightarrow> False)
                                then Some (origin, destination, routeContent)
                                else None)))))))))))))
       response"

definition routeField :: "jsstring \<Rightarrow> jsstring \<Rightarrow> jsstring" where
  "routeField label routeContent =
     (case search (litCI label
                    (zeroOrMore isSpace (\<lambda>_. oneOrMore (\<lambda>c. c \<noteq> 10) (\<lambda>text _. Some text))))
             routeContent of
        Some text \<Rightarrow> text
      | None \<Rightarrow> [])"

definition routeSummary :: "jsstring \<Rightarrow> jsstring option" where
  "routeSummary response =
     (case routeMatch response of
        None \<Rightarrow> None
      | Some (origin, destination, routeContent) \<Rightarrow>
          (let distance = routeField (js ''Distance:'') routeContent;
               routeDesc = routeField (js ''Route Description:'') routeContent;
               time = routeField (js ''Estimated Time:'') routeContent;
               speed = routeField (js ''Speed Analysis:'') routeContent
           in if distance \<noteq> [] \<or> routeDesc \<noteq> []
              then Some (trim
                (js ''BEST ROUTE from '' @ trim origin @ js '' to '' @ trim destination @ js '':''
                 @ [10] @ js ''        '' @ [10]
                 @ [0xD83D, 0xDCCF] @ js '' ROUTE SPECIFICATIONS:'' @ [10]
                 @ (if distance \<noteq> [] then js ''- Distance: '' @ distance else []) @ [10]
                 @ (if routeDesc \<noteq> [] then js ''- Route Description: '' @ routeDesc else []) @ [10]
                 @ (if time \<noteq> [] then js ''- Estimated Time: '' @ time else []) @ [10]
                 @ (if speed \<noteq> [] then js ''- Speed Analysis: '' @ speed else [])))
              else None))"

text \<open>
  The disaster list. Its icons are U+1F32A U+FE0F, U+1F30D, U+1F30A, U+1F4A7, U+1F525 and
  U+1F4CA, each of the last five a pair of surrogates; the bullet is U+2022.
\<close>

definition tornado :: jsstring where "tornado = [0xD83C, 0xDF2A, 0xFE0F]"
definition globe :: jsstring where "globe = [0xD83C, 0xDF0D]"
definition wave :: jsstring where "wave = [0xD83C, 0xDF0A]"
definition droplet :: jsstring where "droplet = [0xD83D, 0xDCA7]"
definition fire :: jsstring where "fire = [0xD83D, 0xDD25]"
definition chart :: jsstring where "chart = [0xD83D, 0xDCCA]"
definition bullet :: jsstring where "bullet = [0x2022]"

definition isDisasterQuery :: "jsstring \<Rightarrow> bool" where
  "isDisasterQuery response \<longleftrightarrow>
     js_includes response (js ''CURRENT GLOBAL DISASTERS'')
     \<or> js_includes response (js ''EARTHQUAKES'') \<or> js_includes response (js ''STORMS'')
     \<or> js_includes response (js ''FLOODS'')"

text \<open>
  A section, \<^verbatim>\<open>/heading(.*?)(?=icon|...|$)/s\<close>: the text after the heading up to
  the first of the icons that may follow, or to the end.
\<close>

definition sectionOf :: "jsstring \<Rightarrow> jsstring list \<Rightarrow> jsstring \<Rightarrow> jsstring option" where
  "sectionOf heading following response =
     search (lit heading
       (anyLazy (\<lambda>body rest.
          if list_ex (\<lambda>icon. startsWith icon rest) following \<or> rest = []
          then Some body else None)))
       response"

text \<open>
  The earthquakes of the section,
  \<^verbatim>\<open>/(bullet) M \d+\.?\d*.*?(?=\n  Occurred:.*?\n)/gs\<close>, and for one of them the
  time it occurred, found with the pattern built from its trimmed text followed by
  \<^verbatim>\<open>\s*\n\s*Occurred: ([^\n]+)\<close>.
\<close>

definition occurredAhead :: "jsstring \<Rightarrow> bool" where
  "occurredAhead rest \<longleftrightarrow>
     found (lit ([10] @ js ''  Occurred:'') (anyLazy (\<lambda>_. lit [10] accept)) rest)"

definition earthquakePattern :: "(jsstring \<Rightarrow> jsstring option) \<Rightarrow> jsstring \<Rightarrow> jsstring option" where
  "earthquakePattern k =
     lit (bullet @ js '' M '')
       (oneOrMore isDigit (\<lambda>_.
          optLit (js ''.'')
            (zeroOrMore isDigit (\<lambda>_.
               anyLazy (\<lambda>_ rest. if occurredAhead rest then k rest else None)))))"

definition occurredOf :: "jsstring \<Rightarrow> jsstring \<Rightarrow> jsstring option" where
  "occurredOf cleanEq section =
     search (lit cleanEq
       (zeroOrMore isSpace (\<lambda>_.
          lit [10]
            (zeroOrMore isSpace (\<lambda>_.
               lit (js ''Occurred: '') (oneOrMore (\<lambda>c. c \<noteq> 10) (\<lambda>text _. Some text)))))))
       section"

definition earthquakeLines :: "jsstring \<Rightarrow> jsstring" where
  "earthquakeLines section =
     (let earthquakes = matchAll earthquakePattern section
      in if length earthquakes > 0 then
           concat (map (\<lambda>eq.
             (let cleanEq = trim eq
              in cleanEq @ [10]
                 @ (case occurredOf cleanEq section of
                      Some occurred \<Rightarrow> js ''  Occurred: '' @ occurred @ [10]
                    | None \<Rightarrow> [])))
             (take 9 earthquakes))
         else bullet @ js '' No significant earthquakes reported'' @ [10])"

text \<open>The bullet lines of a section, \<^verbatim>\<open>/(bullet) [^\n]+/g\<close>, one per line.\<close>

definition bulletPattern :: "(jsstring \<Rightarrow> jsstring option) \<Rightarrow> jsstring \<Rightarrow> jsstring option" where
  "bulletPattern k = lit (bullet @ js '' '') (oneOrMore (\<lambda>c. c \<noteq> 10) (\<lambda>_. k))"

definition bulletLines :: "jsstring \<Rightarrow> jsstring" where
  "bulletLines section = concat (map (\<lambda>line. line @ [10]) (matchAll bulletPattern section))"

text \<open>One of the three sections that are either reported quiet or listed.\<close>

definition listedSection ::
  "jsstring \<Rightarrow> jsstring list \<Rightarrow> jsstring \<Rightarrow> jsstring \<Rightarrow> jsstring \<Rightarrow> jsstring" where
  "listedSection heading following quietMark quietLine response =
     (case sectionOf heading following response of
        None \<Rightarrow> []
      | Some section \<Rightarrow>
          heading @ [10]
          @ (if js_includes section quietMark then quietLine @ [10, 10]
             else bulletLines section @ [10]))"

definition disasterList :: "jsstring \<Rightarrow> jsstring" where
  "disasterList response =
     trim
       (tornado @ js '' CURRENT GLOBAL DISASTERS:'' @ [10, 10]
        @ (case sectionOf (globe @ js '' EARTHQUAKES:'') [wave, droplet, fire, chart] response of
             None \<Rightarrow> []
           | Some section \<Rightarrow> globe @ js '' EARTHQUAKES:'' @ [10] @ earthquakeLines section @ [10])
        @ listedSection (wave @ js '' STORMS & TYPHOONS:'') [droplet, fire, chart]
            (js ''No active storm'')
            (bullet @ js '' No active storm or typhoon alerts at the moment'') response
        @ listedSection (droplet @ js '' FLOODS & WATER HAZARDS:'') [fire, chart]
            (js ''No active flood'')
            (bullet @ js '' No active flood or water hazard alerts currently reported'') response
        @ listedSection (fire @ js '' OTHER NATURAL DISASTERS:'') [chart]
            (js ''No other natural disasters'')
            (bullet @ js '' No other natural disasters ongoing'') response
        @ chart @ js '' DATA SOURCES: global_disaster_monitor'')"

subsection \<open>The whole function\<close>

text \<open>
  \<^verbatim>\<open>simplifyBasicGPTResponse(response, modelUsed)\<close>: the first branch that applies
  returns. The second argument is \<^verbatim>\<open>'advanced'\<close> when the message carries none.
\<close>

definition simplifyBasicGPTResponse :: "jsstring \<Rightarrow> jsstring \<Rightarrow> jsstring" where
  "simplifyBasicGPTResponse response modelUsed =
     (if modelUsed \<noteq> js ''basic'' then advancedResponse response
      else case weatherSummary response of
        Some weather \<Rightarrow> weather
      | None \<Rightarrow>
         (case routeSummary response of
            Some route \<Rightarrow> route
          | None \<Rightarrow>
              if isDisasterQuery response then disasterList response
              else safetyQuerySummary response))"

text \<open>Two responses: one with a safe header, a medium risk level, a storm and two
  active disasters; one with a medium risk level and nothing else.\<close>

definition contradictoryResponse :: jsstring where
  "contradictoryResponse =
     checkMark @ js '' SAFE - Low Risk for Travel'' @ [10]
       @ js ''Risk Level: MEDIUM. Storm watch.'' @ [10]
       @ js ''AFFECTING DISASTERS (2 total)''"



text \<open>Two more responses with a count of active disasters: a safe header that says
  nothing of travel, and a question about travel that names earthquakes in capitals.\<close>

definition quietHeaderResponse :: jsstring where
  "quietHeaderResponse =
     checkMark @ js '' SAFE - No hazards nearby'' @ [10] @ js ''AFFECTING DISASTERS (2 total)''"

definition earthquakeQuestion :: jsstring where
  "earthquakeQuestion =
     js ''EARTHQUAKES near Japan. AFFECTING DISASTERS (3 total). Is it safe to travel?''"


section \<open>Properties of the aggregation\<close>

subsection \<open>The duplicate filter\<close>

lemma near_refl: "near a a"
  by (simp add: near_def)

lemma near_sym: "near a b \<longleftrightarrow> near b a"
  by (auto simp: near_def abs_minus_commute)

lemma findIndexFrom_range: "findIndexFrom P xs k = - 1 \<or> int k \<le> findIndexFrom P xs k"
proof (induction xs arbitrary: k)
  case Nil
  show ?case by simp
next
  case (Cons x xs)
  from Cons.IH [of "Suc k"] show ?case by auto
qed

lemma findIndexFrom_iff:
  "i < length xs \<Longrightarrow>
     findIndexFrom P xs k = int (k + i) \<longleftrightarrow> P (xs ! i) \<and> (\<forall>j<i. \<not> P (xs ! j))"
proof (induction xs arbitrary: k i)
  case Nil
  then show ?case by simp
next
  case (Cons x xs)
  show ?case
  proof (cases i)
    case 0
    from findIndexFrom_range [of P xs "Suc k"] show ?thesis
      using 0 by auto
  next
    case (Suc i')
    with Cons.prems have "i' < length xs" by simp
    from Cons.IH [OF this, of "Suc k"] show ?thesis
      using Suc by (auto simp: less_Suc_eq_0_disj)
  qed
qed

lemma kept_index_iff:
  assumes "i < length xs"
  shows "int i = findIndex (\<lambda>a. near a (xs ! i)) xs \<longleftrightarrow> (\<forall>j<i. \<not> near (xs ! j) (xs ! i))"
  using findIndexFrom_iff [OF assms, of "\<lambda>a. near a (xs ! i)" 0]
  by (auto simp: findIndex_def near_refl)

lemma kept_iff:
  "int (length seen) = findIndex (\<lambda>a. near a x) (seen @ x # xs) \<longleftrightarrow> (\<forall>a\<in>set seen. \<not> near a x)"
proof -
  have "int (length seen) = findIndex (\<lambda>a. near a ((seen @ x # xs) ! length seen)) (seen @ x # xs)
          \<longleftrightarrow> (\<forall>j<length seen. \<not> near ((seen @ x # xs) ! j) ((seen @ x # xs) ! length seen))"
    by (rule kept_index_iff) simp
  also have "\<dots> \<longleftrightarrow> (\<forall>j<length seen. \<not> near (seen ! j) x)"
    by (simp add: nth_append)
  also have "\<dots> \<longleftrightarrow> (\<forall>a\<in>set seen. \<not> near a x)"
    by (metis in_set_conv_nth)
  finally show ?thesis by simp
qed

lemma filter_enumerate_firstSeen:
  "map snd (filter (\<lambda>(index, area). int index = findIndex (\<lambda>a. near a area) (seen @ xs))
                   (enumerate (length seen) xs)) = firstSeen seen xs"
proof (induction xs arbitrary: seen)
  case Nil
  show ?case by simp
next
  case (Cons x xs)
  from Cons.IH [of "seen @ [x]"] show ?case
    by (simp add: kept_iff)
qed

lemma uniqueAreas_firstSeen: "uniqueAreas xs = firstSeen [] xs"
  using filter_enumerate_firstSeen [of "[]" xs] by (simp add: uniqueAreas_def)

lemma firstSeen_append:
  "firstSeen seen (xs @ ys) = firstSeen seen xs @ firstSeen (seen @ xs) ys"
  by (induction xs arbitrary: seen) simp_all

lemma firstSeen_filter:
  "firstSeen (s @ t) ys = filter (\<lambda>g. \<forall>c\<in>set s. \<not> near c g) (firstSeen t ys)"
proof (induction ys arbitrary: t)
  case Nil
  show ?case by simp
next
  case (Cons y ys)
  from Cons.IH [of "t @ [y]"] show ?case by auto
qed

lemma uniqueAreas_append:
  "uniqueAreas (xs @ ys) =
     uniqueAreas xs @ filter (\<lambda>g. \<forall>c\<in>set xs. \<not> near c g) (uniqueAreas ys)"
  using firstSeen_filter [of xs "[]" ys]
  by (simp add: uniqueAreas_firstSeen firstSeen_append)

lemma firstSeen_far:
  "y \<in> set (firstSeen seen xs) \<Longrightarrow> a \<in> set seen \<Longrightarrow> \<not> near a y"
proof (induction xs arbitrary: seen)
  case Nil
  then show ?case by simp
next
  case (Cons x xs)
  from Cons.prems(1)
  have "y = x \<and> (\<forall>a\<in>set seen. \<not> near a x) \<or> y \<in> set (firstSeen (seen @ [x]) xs)"
    by (auto split: if_splits)
  then show ?case
  proof
    assume "y = x \<and> (\<forall>a\<in>set seen. \<not> near a x)"
    with Cons.prems(2) show ?thesis by simp
  next
    assume "y \<in> set (firstSeen (seen @ [x]) xs)"
    from Cons.IH [OF this] Cons.prems(2) show ?thesis by simp
  qed
qed

lemma firstSeen_pairwise: "sorted_wrt (\<lambda>a b. \<not> near a b) (firstSeen seen xs)"
proof (induction xs arbitrary: seen)
  case Nil
  show ?case by simp
next
  case (Cons x xs)
  have "\<forall>y\<in>set (firstSeen (seen @ [x]) xs). \<not> near x y"
    using firstSeen_far [of _ "seen @ [x]" xs x] by simp
  with Cons.IH [of "seen @ [x]"] show ?case by simp
qed

lemma firstSeen_id:
  "sorted_wrt (\<lambda>a b. \<not> near a b) ys \<Longrightarrow> \<forall>y\<in>set ys. \<forall>a\<in>set seen. \<not> near a y
     \<Longrightarrow> firstSeen seen ys = ys"
proof (induction ys arbitrary: seen)
  case Nil
  show ?case by simp
next
  case (Cons y ys)
  have "firstSeen (seen @ [y]) ys = ys"
    using Cons.prems by (intro Cons.IH) auto
  with Cons.prems show ?case by auto
qed

lemma uniqueAreas_id:
  "sorted_wrt (\<lambda>a b. \<not> near a b) ys \<Longrightarrow> uniqueAreas ys = ys"
  by (simp add: uniqueAreas_firstSeen firstSeen_id)

lemma uniqueAreas_pairwise: "sorted_wrt (\<lambda>a b. \<not> near a b) (uniqueAreas xs)"
  by (simp add: uniqueAreas_firstSeen firstSeen_pairwise)

lemma uniqueAreas_idem: "uniqueAreas (uniqueAreas xs) = uniqueAreas xs"
  by (rule uniqueAreas_id) (rule uniqueAreas_pairwise)

lemma enumerate_as_map: "enumerate 0 xs = map (\<lambda>i. (i, xs ! i)) [0..<length xs]"
proof (rule nth_equalityI)
  show "length (enumerate 0 xs) = length (map (\<lambda>i. (i, xs ! i)) [0..<length xs])"
    by simp
next
  fix i
  assume "i < length (enumerate 0 xs)"
  then have "i < length xs" by simp
  then show "enumerate 0 xs ! i = map (\<lambda>i. (i, xs ! i)) [0..<length xs] ! i"
    by (simp add: nth_enumerate_eq)
qed

lemma uniqueAreas_by_index:
  "uniqueAreas xs =
     map (nth xs) (filter (\<lambda>i. \<forall>j<i. \<not> near (xs ! j) (xs ! i)) [0..<length xs])"
proof -
  have "filter (\<lambda>i. int i = findIndex (\<lambda>a. near a (xs ! i)) xs) [0..<length xs]
          = filter (\<lambda>i. \<forall>j<i. \<not> near (xs ! j) (xs ! i)) [0..<length xs]"
    by (rule filter_cong) (simp_all add: kept_index_iff)
  then show ?thesis
    by (simp add: uniqueAreas_def enumerate_as_map filter_map comp_def)
qed

subsection \<open>The sort\<close>

lemma sorted_wrt_insort_key:
  assumes "\<And>a b. P a b \<Longrightarrow> P b a"
  shows "sorted_wrt P (insort_key f x xs) \<longleftrightarrow> (\<forall>y\<in>set xs. P x y) \<and> sorted_wrt P xs"
proof (induction xs)
  case Nil
  show ?case by simp
next
  case (Cons y ys)
  then show ?case using assms by (auto simp: set_insort_key)
qed

lemma sorted_wrt_sort_key:
  assumes "\<And>a b. P a b \<Longrightarrow> P b a"
  shows "sorted_wrt P xs \<Longrightarrow> sorted_wrt P (sort_key f xs)"
proof (induction xs)
  case Nil
  show ?case by simp
next
  case (Cons x xs)
  then show ?case
    by (simp add: sort_key_def [symmetric] sorted_wrt_insort_key [OF assms])
qed

lemma sortedAreas_far:
  "sorted_wrt (\<lambda>a b. \<not> near a b) xs \<Longrightarrow> sorted_wrt (\<lambda>a b. \<not> near a b) (sortedAreas xs)"
  unfolding sortedAreas_def
  by (rule sorted_wrt_sort_key) (simp_all add: near_sym)

lemma sortedAreas_sorted:
  "sorted (map (\<lambda>a. severityRank (severity a)) (sortedAreas xs))"
  by (simp add: sortedAreas_def)

lemma sortedAreas_take_id:
  "sortedAreas (take n (sortedAreas xs)) = take n (sortedAreas xs)"
proof -
  have "sorted (take n (map (\<lambda>a. severityRank (severity a)) (sortedAreas xs)))"
    by (rule sorted_wrt_take) (rule sortedAreas_sorted)
  then have "sorted (map (\<lambda>a. severityRank (severity a)) (take n (sortedAreas xs)))"
    by (simp add: take_map)
  then show ?thesis
    unfolding sortedAreas_def [of "take n (sortedAreas xs)"] by (rule sort_key_id_if_sorted)
qed

lemma sortedAreas_by_comparator:
  "sorted_wrt (\<lambda>a b. compareAreas a b \<le> 0) (sortedAreas xs)"
  using sortedAreas_sorted [of xs]
  by (simp add: sorted_map compareAreas_def)

lemma truncation_keeps_lowest_ranks:
  assumes "a \<in> set (take n (sortedAreas xs))" and "b \<in> set (drop n (sortedAreas xs))"
  shows "severityRank (severity a) \<le> severityRank (severity b)"
proof -
  have "sorted (map (\<lambda>a. severityRank (severity a))
                 (take n (sortedAreas xs) @ drop n (sortedAreas xs)))"
    by (simp add: sortedAreas_sorted)
  then show ?thesis
    unfolding map_append sorted_append using assms by auto
qed

lemma highRiskAreas_again:
  "highRiskAreas [] (highRiskAreas cur glob) = highRiskAreas cur glob"
proof -
  let ?T = "take 15 (sortedAreas (uniqueAreas (cur @ glob)))"
  have "sorted_wrt (\<lambda>a b. \<not> near a b) ?T"
    by (intro sorted_wrt_take sortedAreas_far uniqueAreas_pairwise)
  then have "uniqueAreas ?T = ?T" by (rule uniqueAreas_id)
  then show ?thesis
    by (simp add: highRiskAreas_def topAreas_def sortedAreas_take_id)
qed

lemmas feed_defs = quakeUSGS_def stormGDACS_def olderSevere_def newerSevere_def hereSevere_def
  cycloneGDACS_def severeAt_def extremeQuake_def moderateWest_def moderateEast_def
  severeMiddle_def

lemmas pipeline_defs = highRiskAreas_def topAreas_def sortedAreas_def uniqueAreas_def
  findIndex_def near_def severityRank_def severityOrder_def enumerate_eq_zip

subsection \<open>Claims about the aggregation\<close>

text \<open>
  C3, counterexample. The claim merges two events only when their types match or are
  compatible, and lets the merged record carry the higher severity and both sources. The
  filter looks at coordinates alone: an earthquake from one provider and a storm from
  another, a quarter of a degree apart, are taken for duplicates; the record kept is the
  earlier one, unchanged, with the lower severity and its own source only.
\<close>

theorem dedup_merges_unrelated_types:
  "disaster_type quakeUSGS = Some ''Earthquake'' \<and> disaster_type stormGDACS = Some ''Storm''
   \<and> source quakeUSGS = ''USGS'' \<and> source stormGDACS = ''GDACS''
   \<and> severity quakeUSGS = ''MODERATE'' \<and> severity stormGDACS = ''EXTREME''
   \<and> uniqueAreas [quakeUSGS, stormGDACS] = [quakeUSGS]"
  by (simp add: pipeline_defs feed_defs)

text \<open>
  C3, as amended. An entry of the combined list is kept exactly when no earlier entry of the
  list lies less than half a degree from it in both latitude and longitude; type, source and
  severity are not consulted, and the entries kept are the records of the input, unchanged
  and in their order.
\<close>

theorem duplicates_by_coordinates_only:
  "uniqueAreas xs =
     map (nth xs) (filter (\<lambda>i. \<forall>j<i. \<not> near (xs ! j) (xs ! i)) [0..<length xs])"
  by (rule uniqueAreas_by_index)

text \<open>C3, witness: the filter on three entries, the second within half a degree of the first.\<close>

theorem duplicates_by_coordinates_only_witness:
  "uniqueAreas [quakeUSGS, stormGDACS, extremeQuake] = [quakeUSGS, extremeQuake]"
  using duplicates_by_coordinates_only [of "[quakeUSGS, stormGDACS, extremeQuake]"]
  by (simp add: pipeline_defs feed_defs)

text \<open>
  C4, counterexample. The claim orders events of one severity tier by their timestamp, the
  most recent first. The comparator reads the severity and nothing else, and the sort is
  stable: two severe events stay in the order of the feed, the older one first.
\<close>

theorem equal_tier_keeps_feed_order:
  "severity olderSevere = severity newerSevere \<and> issued olderSevere < issued newerSevere
   \<and> map issued (sortedAreas [olderSevere, newerSevere]) = [100, 200]
   \<and> map issued (highRiskAreas [] [olderSevere, newerSevere]) = [100, 200]"
  by (simp add: pipeline_defs feed_defs)

lemma severityRank_values:
  "severityRank ''SEVERE'' = 1" "severityRank ''MODERATE'' = 2" "severityRank ''MINOR'' = 3"
  by (simp_all add: severityRank_def severityOrder_def)

lemma severityRank_other:
  "s \<notin> {''EXTREME'', ''SEVERE'', ''MODERATE'', ''MINOR''} \<Longrightarrow> severityRank s = 99"
  by (simp add: severityRank_def severityOrder_def)

text \<open>
  C4, as amended. For a list without the label EXTREME the sorted list is a permutation of
  the input in ascending rank, SEVERE (1) before MODERATE (2) before MINOR (3) before every
  other label (99), and the events of one rank keep the order they had in the input; no
  timestamp is consulted.
\<close>

theorem ranking_by_tier_stable:
  assumes "\<forall>a\<in>set xs. severity a \<noteq> ''EXTREME'' \<and> severity a \<notin> set objectPrototypeKeys"
  shows "mset (sortedAreas xs) = mset xs
     \<and> sorted (map (\<lambda>a. severityRank (severity a)) (sortedAreas xs))
     \<and> sorted_wrt (\<lambda>a b. compareAreas a b \<le> 0) (sortedAreas xs)
     \<and> (\<forall>k. filter (\<lambda>a. severityRank (severity a) = k) (sortedAreas xs)
              = filter (\<lambda>a. severityRank (severity a) = k) xs)
     \<and> severityRank ''SEVERE'' = 1 \<and> severityRank ''MODERATE'' = 2 \<and> severityRank ''MINOR'' = 3
     \<and> (\<forall>a\<in>set xs. severity a \<notin> {''SEVERE'', ''MODERATE'', ''MINOR''}
            \<longrightarrow> severityRank (severity a) = 99)"
proof -
  have "\<forall>a\<in>set xs. severity a \<notin> {''SEVERE'', ''MODERATE'', ''MINOR''}
            \<longrightarrow> severityRank (severity a) = 99"
    using assms by (auto intro: severityRank_other)
  moreover have "mset (sortedAreas xs) = mset xs"
    by (simp add: sortedAreas_def)
  moreover have "\<forall>k. filter (\<lambda>a. severityRank (severity a) = k) (sortedAreas xs)
                      = filter (\<lambda>a. severityRank (severity a) = k) xs"
    by (simp add: sortedAreas_def sort_key_stable)
  ultimately show ?thesis
    using sortedAreas_sorted [of xs] sortedAreas_by_comparator [of xs]
    by (simp only: severityRank_values simp_thms)
qed

text \<open>C4, witness: a feed of five events with four different labels.\<close>

theorem ranking_by_tier_stable_witness:
  "list_all (\<lambda>a. severity a \<noteq> ''EXTREME'' \<and> severity a \<notin> set objectPrototypeKeys) mixedFeed
   \<and> sorted (map (\<lambda>a. severityRank (severity a)) (sortedAreas mixedFeed))
   \<and> map severity (sortedAreas mixedFeed) = [''SEVERE'', ''SEVERE'', ''MODERATE'', ''MINOR'', ''LOW'']
   \<and> map lat (filter (\<lambda>a. severityRank (severity a) = 1) (sortedAreas mixedFeed)) = [1, 7]"
proof -
  have h: "\<forall>a\<in>set mixedFeed. severity a \<noteq> ''EXTREME'' \<and> severity a \<notin> set objectPrototypeKeys"
    by (simp add: mixedFeed_def feed_defs objectPrototypeKeys_def)
  have "map severity (sortedAreas mixedFeed) = [''SEVERE'', ''SEVERE'', ''MODERATE'', ''MINOR'', ''LOW'']"
    by (simp add: mixedFeed_def feed_defs pipeline_defs)
  moreover have "map lat (filter (\<lambda>a. severityRank (severity a) = 1) mixedFeed) = [1, 7]"
    by (simp add: mixedFeed_def feed_defs pipeline_defs)
  ultimately show ?thesis
    using h ranking_by_tier_stable [OF h] by (simp add: list_all_iff)
qed

text \<open>
  C5, counterexample. The claim gives the entries of the selected location no preference in
  deduplication beyond their own severity or recency. They stand first in the combined list
  and the filter keeps the earlier record: an extreme cyclone of the global feed a quarter
  of a degree from the selected location is dropped in favour of the location's severe entry.
\<close>

theorem current_location_entry_shadows_global:
  "severity hereSevere = ''SEVERE'' \<and> severity cycloneGDACS = ''EXTREME''
   \<and> source hereSevere = ''Your Location''
   \<and> fetchCurrentHighRiskAreas True [hereSevere] (Fetched [cycloneGDACS]) = [hereSevere]"
  by (simp add: fetchCurrentHighRiskAreas_def pipeline_defs feed_defs)

text \<open>
  C5, as amended. Both kinds of entries go through the one pipeline, as one list with the
  entries of the selected location first. Deduplication never drops an entry of the selected
  location because of a global one, and drops every global entry within half a degree of an
  entry of the selected location, whatever the severities; among entries of equal rank the
  sorted list has those of the selected location first.
\<close>

theorem current_location_entries_first:
  assumes "\<forall>a\<in>set (cur @ glob). severity a \<notin> set objectPrototypeKeys"
  shows "fetchCurrentHighRiskAreas True cur (Fetched glob)
           = take 15 (sortedAreas (uniqueAreas (cur @ glob)))
     \<and> uniqueAreas (cur @ glob)
           = uniqueAreas cur @ filter (\<lambda>g. \<forall>c\<in>set cur. \<not> near c g) (uniqueAreas glob)
     \<and> (\<forall>k. filter (\<lambda>a. severityRank (severity a) = k) (sortedAreas (uniqueAreas (cur @ glob)))
              = filter (\<lambda>a. severityRank (severity a) = k) (uniqueAreas cur)
                @ filter (\<lambda>a. severityRank (severity a) = k)
                    (filter (\<lambda>g. \<forall>c\<in>set cur. \<not> near c g) (uniqueAreas glob)))"
proof -
  have "filter (\<lambda>a. severityRank (severity a) = k) (sortedAreas (uniqueAreas (cur @ glob)))
          = filter (\<lambda>a. severityRank (severity a) = k) (uniqueAreas cur)
            @ filter (\<lambda>a. severityRank (severity a) = k)
                (filter (\<lambda>g. \<forall>c\<in>set cur. \<not> near c g) (uniqueAreas glob))" for k
    unfolding sortedAreas_def sort_key_stable
    by (simp add: uniqueAreas_append)
  then show ?thesis
    by (simp add: fetchCurrentHighRiskAreas_def highRiskAreas_def topAreas_def uniqueAreas_append)
qed

text \<open>C5, witness: one entry of the selected location and two global entries, one of
  them near it.\<close>

theorem current_location_entries_first_witness:
  "list_all (\<lambda>a. severity a \<notin> set objectPrototypeKeys) ([hereSevere] @ [cycloneGDACS, extremeQuake])
   \<and> uniqueAreas ([hereSevere] @ [cycloneGDACS, extremeQuake]) = [hereSevere, extremeQuake]
   \<and> fetchCurrentHighRiskAreas True [hereSevere] (Fetched [cycloneGDACS, extremeQuake])
        = [hereSevere, extremeQuake]"
proof -
  have h: "\<forall>a\<in>set ([hereSevere] @ [cycloneGDACS, extremeQuake]). severity a \<notin> set objectPrototypeKeys"
    by (simp add: feed_defs objectPrototypeKeys_def)
  have u: "uniqueAreas [hereSevere] = [hereSevere]"
          "uniqueAreas [cycloneGDACS, extremeQuake] = [cycloneGDACS, extremeQuake]"
    by (simp_all add: pipeline_defs feed_defs)
  have n: "near hereSevere cycloneGDACS" "\<not> near hereSevere extremeQuake"
    by (simp_all add: near_def feed_defs)
  have s: "take 15 (sortedAreas [hereSevere, extremeQuake]) = [hereSevere, extremeQuake]"
    by (simp add: pipeline_defs feed_defs)
  from current_location_entries_first [OF h] have
    "uniqueAreas ([hereSevere] @ [cycloneGDACS, extremeQuake]) = [hereSevere, extremeQuake]"
    "fetchCurrentHighRiskAreas True [hereSevere] (Fetched [cycloneGDACS, extremeQuake])
       = take 15 (sortedAreas (uniqueAreas ([hereSevere] @ [cycloneGDACS, extremeQuake])))"
    by (simp_all add: u n)
  with h s show ?thesis by (simp add: list_all_iff)
qed

text \<open>
  C6, the code at the failing input. Sixteen events far from one another, fifteen severe
  and one extreme: deduplication keeps all of them, the sort puts the extreme event last
  (its rank \<^verbatim>\<open>0 || 99\<close> is \<open>99\<close>), and the cut to fifteen entries drops it
  while every severe event stays.
\<close>

theorem truncation_drops_extreme:
  "severity extremeQuake = ''EXTREME'' \<and> list_all (\<lambda>a. severity a = ''SEVERE'') fifteenSevere
   \<and> uniqueAreas (extremeQuake # fifteenSevere) = extremeQuake # fifteenSevere
   \<and> sortedAreas (uniqueAreas (extremeQuake # fifteenSevere)) = fifteenSevere @ [extremeQuake]
   \<and> fetchCurrentHighRiskAreas True [] (Fetched (extremeQuake # fifteenSevere)) = fifteenSevere"
  by (simp add: fetchCurrentHighRiskAreas_def pipeline_defs feed_defs fifteenSevere_def upt_conv_Cons)

text \<open>
  C7, counterexample. The claim expects the same count and the same top event when the
  order of the contributing sources is swapped. With one provider's two moderate events
  first, both are kept and the other provider's severe event between them is dropped; with
  the severe event first it alone is kept.
\<close>

theorem source_order_changes_result:
  "length (highRiskAreas [moderateWest, moderateEast] [severeMiddle]) = 2
   \<and> length (highRiskAreas [severeMiddle] [moderateWest, moderateEast]) = 1
   \<and> hd (highRiskAreas [moderateWest, moderateEast] [severeMiddle]) = moderateWest
   \<and> hd (highRiskAreas [severeMiddle] [moderateWest, moderateEast]) = severeMiddle
   \<and> severity moderateWest = ''MODERATE'' \<and> severity severeMiddle = ''SEVERE''"
  by (simp add: pipeline_defs feed_defs)

text \<open>
  C7, as amended. Deduplication is idempotent, and so is the whole aggregation: running it
  on its own result returns that result, with the same count and the same first event.
  Nothing is claimed for a changed order of the sources.
\<close>

theorem aggregation_idempotent:
  "uniqueAreas (uniqueAreas xs) = uniqueAreas xs
   \<and> highRiskAreas [] (highRiskAreas cur glob) = highRiskAreas cur glob"
  by (simp add: uniqueAreas_idem highRiskAreas_again)

section \<open>Claims about the weather map and the route page\<close>

text \<open>
  C8, counterexample. The claim has the result of a failed fetch carry a degraded-mode flag
  and the consumer render a caveat. The page keeps no such flag: after a network failure its
  state is, field for field, the state after a successful answer without alerts, and the
  card shows the plain \<^verbatim>\<open>No active alerts for this location\<close>.
\<close>

theorem failed_fetch_looks_like_no_alerts:
  "fetchHazardAlerts 10 20 True (Rejected networkError) mapWithAlert
     = fetchHazardAlerts 10 20 True (Resolved \<lparr>top_alerts = Some []\<rparr>) mapWithAlert
   \<and> fetchHazardAlerts 10 20 True (Rejected networkError) mapWithAlert
     = \<lparr>hazardAlerts = [], alertsLoading = False, toasts = []\<rparr>
   \<and> hazardAlertsPanel (fetchHazardAlerts 10 20 True (Rejected networkError) mapWithAlert)
     = NoActiveAlerts"
  by (simp add: fetchHazardAlerts_def hazardAlertsPanel_def mapWithAlert_def networkError_def)

text \<open>
  C8, as amended. When the hazard request of an authenticated page fails, whatever the error,
  the stored alert list is empty, loading has ended and the card shows
  \<^verbatim>\<open>No active alerts for this location\<close>, never an alert card and never a failure;
  no flag marks the result as degraded: unless the error is a 401 or 403 response, which
  adds a toast, the state is the one a successful empty answer leaves.
\<close>

theorem failed_fetch_shows_no_alerts:
  assumes "lat' \<noteq> 0" and "lng' \<noteq> 0"
  shows "hazardAlerts (fetchHazardAlerts lat' lng' True (Rejected error) st) = []
     \<and> alertsLoading (fetchHazardAlerts lat' lng' True (Rejected error) st) = False
     \<and> hazardAlertsPanel (fetchHazardAlerts lat' lng' True (Rejected error) st) = NoActiveAlerts
     \<and> (status error \<noteq> Some 401 \<and> status error \<noteq> Some 403 \<longrightarrow>
          fetchHazardAlerts lat' lng' True (Rejected error) st
            = fetchHazardAlerts lat' lng' True (Resolved \<lparr>top_alerts = Some []\<rparr>) st)"
  using assms
  by (simp add: fetchHazardAlerts_def hazardAlertsPanel_def split: option.splits)

text \<open>C8, witness: a timeout on a map that still showed a storm warning.\<close>

theorem failed_fetch_shows_no_alerts_witness:
  "(10::real) \<noteq> 0 \<and> (20::real) \<noteq> 0
   \<and> hazardAlerts (fetchHazardAlerts 10 20 True (Rejected timeoutError) mapWithAlert) = []
   \<and> hazardAlertsPanel (fetchHazardAlerts 10 20 True (Rejected timeoutError) mapWithAlert)
        = NoActiveAlerts"
proof -
  have h: "(10::real) \<noteq> 0" "(20::real) \<noteq> 0" by simp_all
  from failed_fetch_shows_no_alerts [OF h, of timeoutError mapWithAlert] h
  show ?thesis by simp
qed

text \<open>
  Two facts about runs that are not cancelled: a run whose request is answered stores the
  answer, and \<^verbatim>\<open>cancelAnalysis\<close> after the run has ended changes nothing.
\<close>

lemma answered_analysis_stores_result:
  assumes "token" and "startPoint st \<noteq> None" and "endPoint st \<noteq> None"
    and "isValid (startValidation st)" and "isValid (endValidation st)"
  shows "analysisResult (analyzeRoute_settle (Resolved data) (analyzeRoute_begin token st))
           = Some data"
proof -
  have "analyzeRoute_begin token st
          = st\<lparr>analyzing := True, analysisResult := None, abortController := Some (),
               request := Pending, toasts := routeAnalysis.toasts st @ [CalculatingRoute]\<rparr>"
    using assms by (auto simp add: analyzeRoute_begin_def)
  then show ?thesis
    by (simp add: analyzeRoute_settle_def settles_def)
qed

lemma cancel_after_the_run_is_void:
  "request st \<noteq> NoRequest \<Longrightarrow>
     cancelAnalysis (analyzeRoute_settle delivered st) = analyzeRoute_settle delivered st"
  by (simp add: cancelAnalysis_def analyzeRoute_settle_def Let_def)

text \<open>
  C9. A run of the route analysis that passes the guards and is cancelled stores no result:
  the stored result is null once the run has begun, stays null when
  \<^verbatim>\<open>cancelAnalysis\<close> aborts the request, and is still null after the aborted
  request has settled, whatever the network delivered in the meantime; all that the state
  gains are the loading toast and the two cancellation toasts.
\<close>

theorem cancelled_analysis_stores_nothing:
  assumes "token" and "startPoint st \<noteq> None" and "endPoint st \<noteq> None"
    and "isValid (startValidation st)" and "isValid (endValidation st)"
  shows "analysisResult (analyzeRoute_begin token st) = None
     \<and> abortController (analyzeRoute_begin token st) \<noteq> None
     \<and> analysisResult (cancelAnalysis (analyzeRoute_begin token st)) = None
     \<and> analyzeRoute_settle delivered (cancelAnalysis (analyzeRoute_begin token st))
          = st\<lparr>analyzing := False, analysisResult := None, abortController := None,
               request := NoRequest,
               toasts := routeAnalysis.toasts st @ [CalculatingRoute, CancelledSuccessfully, CancelledByUser]\<rparr>"
proof -
  let ?begun = "st\<lparr>analyzing := True, analysisResult := None, abortController := Some (),
                    request := Pending, toasts := routeAnalysis.toasts st @ [CalculatingRoute]\<rparr>"
  let ?cancelled = "?begun\<lparr>request := Aborted,
                             toasts := routeAnalysis.toasts ?begun @ [CancelledSuccessfully],
                             analyzing := False, abortController := None\<rparr>"
  have b: "analyzeRoute_begin token st = ?begun"
    using assms by (auto simp add: analyzeRoute_begin_def)
  have c: "cancelAnalysis ?begun = ?cancelled"
    by (simp add: cancelAnalysis_def)
  have s: "analyzeRoute_settle delivered ?cancelled
             = st\<lparr>analyzing := False, analysisResult := None, abortController := None,
                  request := NoRequest,
                  toasts := routeAnalysis.toasts st
                    @ [CalculatingRoute, CancelledSuccessfully, CancelledByUser]\<rparr>"
    by (simp add: analyzeRoute_settle_def settles_def canceledError_def)
  show ?thesis
    unfolding b c s by simp
qed

text \<open>C9, witness: a page that holds the result of an earlier analysis; the answer of
  the cancelled run arrives late and is not stored.\<close>

theorem cancelled_analysis_stores_nothing_witness:
  "analysisResult readyPage = Some ''earlier analysis''
   \<and> analysisResult (analyzeRoute_settle (Resolved ''late answer'')
        (cancelAnalysis (analyzeRoute_begin True readyPage))) = None
   \<and> routeAnalysis.toasts (analyzeRoute_settle (Resolved ''late answer'')
        (cancelAnalysis (analyzeRoute_begin True readyPage)))
        = [CalculatingRoute, CancelledSuccessfully, CancelledByUser]"
proof -
  have h: "True" "startPoint readyPage \<noteq> None" "endPoint readyPage \<noteq> None"
    "isValid (startValidation readyPage)" "isValid (endValidation readyPage)"
    by (simp_all add: readyPage_def isValid_def validHarbor_def)
  from cancelled_analysis_stores_nothing [OF h, of "Resolved ''late answer''"]
  show ?thesis by (simp add: readyPage_def)
qed

text \<open>
  C10, counterexample. The claim lets no selection proceed on a coordinate whose validation
  request failed. A location handed over by the map page goes through
  \<^verbatim>\<open>setLocationAsStart\<close>: with the harbor service unreachable the validation is
  the failed one, no harbor is found to snap to, and the open-water coordinate is stored as
  the start point together with that validation.
\<close>

theorem handed_over_location_is_stored:
  "validateHarborLocation (point.lat openSea) (lng openSea) (Rejected networkError) = failClosed
   \<and> startPoint (setLocationAsStart openSea (Rejected networkError) (Rejected networkError) emptyPage)
        = Some openSea
   \<and> startValidation (setLocationAsStart openSea (Rejected networkError) (Rejected networkError) emptyPage)
        = Some failClosed"
  by (simp add: setLocationAsStart_def validateHarborLocation_def getNearestHarbor_def
      failClosed_def emptyPage_def Let_def)

text \<open>
  C10, as amended. For every coordinate and every failure of the validation request both
  validators return the same object: not valid, on land, with the message of the catch
  block. In the harbor search handler, whenever no nearest harbor is found (the request for
  it fails, or answers with none), nothing is stored and the land toast is shown; and the
  route analysis does not start on a page whose start or end validation is this object. (A
  location handed over by the map page is stored with the failed validation, as the
  counterexample shows.)
\<close>

theorem validation_fails_closed:
  "validateHarborLocation lat' lng' (Rejected error) = failClosed
   \<and> validateLocation lat' lng' (Rejected error) = failClosed
   \<and> is_valid failClosed = False \<and> is_land failClosed = True
   \<and> message failClosed = ''Unable to validate location. Please select a known harbor.''
   \<and> onSelectStart (Some coordinates) (Rejected error) (Rejected error') st
        = Returned (st\<lparr>toasts := routeAnalysis.toasts st
                 @ [CannotSelectLand (point.lat coordinates) (lng coordinates)]\<rparr>)
   \<and> onSelectStart (Some coordinates) (Rejected error) (Resolved None) st
        = Returned (st\<lparr>toasts := routeAnalysis.toasts st
                 @ [CannotSelectLand (point.lat coordinates) (lng coordinates)]\<rparr>)
   \<and> (getNearestHarbor (point.lat coordinates) (lng coordinates) nearestFound = None \<longrightarrow>
        onSelectStart (Some coordinates) (Rejected error) nearestFound st
          = Returned (st\<lparr>toasts := routeAnalysis.toasts st
                 @ [CannotSelectLand (point.lat coordinates) (lng coordinates)]\<rparr>))
   \<and> (startValidation st' = Some failClosed \<or> endValidation st' = Some failClosed \<longrightarrow>
        analysisResult (analyzeRoute_begin token st') = analysisResult st'
        \<and> request (analyzeRoute_begin token st') = request st'
        \<and> analyzing (analyzeRoute_begin token st') = analyzing st')"
  by (auto simp add: validateHarborLocation_def validateLocation_def failClosed_def
      onSelectStart_def getNearestHarbor_def analyzeRoute_begin_def isValid_def Let_def)

text \<open>C10, witness: an open-water coordinate while the validation request times out and
  the request for the nearest harbor finds none.\<close>

theorem validation_fails_closed_witness:
  "validateHarborLocation 12.5 85.5 (Rejected timeoutError) = failClosed
   \<and> getNearestHarbor (point.lat openSea) (lng openSea) (Resolved None) = None
   \<and> onSelectStart (Some openSea) (Rejected timeoutError) (Rejected timeoutError) emptyPage
        = Returned (emptyPage\<lparr>toasts := [CannotSelectLand 12.5 85.5]\<rparr>)
   \<and> onSelectStart (Some openSea) (Rejected timeoutError) (Resolved None) emptyPage
        = Returned (emptyPage\<lparr>toasts := [CannotSelectLand 12.5 85.5]\<rparr>)
   \<and> request (analyzeRoute_begin True (readyPage\<lparr>startValidation := Some failClosed\<rparr>)) = NoRequest"
  using validation_fails_closed [of "12.5" "85.5" timeoutError openSea timeoutError emptyPage
      "Resolved None" "readyPage\<lparr>startValidation := Some failClosed\<rparr>" True]
  by (simp add: emptyPage_def openSea_def readyPage_def getNearestHarbor_def)

section \<open>Claims about the safety verdict\<close>

lemmas regex_defs = js_def canonicalize_def orElse_def isDigit_def isSpace_def
  isLineTerminator_def zeroOrMore_def oneOrMore_def accept_def found_def js_includes_def
  checkMark_def warningSign_def crossMark_def infoSign_def

lemmas verdict_defs = safetyQuerySummary_def safetyVerdict_def isSafetyQuery_def
  disasterCount_def hasActiveDisasters_def parseInt_def explicitlyUnsafe_def
  mainSafetyVerdict_def hasHighRisk_def hasMediumRisk_def hasLowRisk_def riskLevel_def
  hasDisasterKeywords_def toUpperCase_def

lemmas dispatch_defs = simplifyBasicGPTResponse_def advancedResponse_def removeSafeHeader_def
  weatherSummary_def weatherMatch_def routeSummary_def routeMatch_def isDisasterQuery_def
  anyLazy_def anyLazy1_def startsWith_def

lemmas list_defs = disasterList_def sectionOf_def listedSection_def trim_def
  tornado_def globe_def wave_def droplet_def fire_def chart_def bullet_def

lemma contradictory_dispatch:
  "weatherSummary contradictoryResponse = None" "routeSummary contradictoryResponse = None"
  "\<not> isDisasterQuery contradictoryResponse"
  by (simp_all add: contradictoryResponse_def dispatch_defs regex_defs)

lemma contradictory_facts:
  "isSafetyQuery contradictoryResponse" "disasterCount contradictoryResponse = 2"
  "hasMediumRisk contradictoryResponse" "hasDisasterKeywords contradictoryResponse"
  "mainSafetyVerdict contradictoryResponse = Some (checkMark, js ''SAFE'')"
  by (simp_all add: contradictoryResponse_def verdict_defs regex_defs)

lemma quiet_header_facts:
  "disasterCount quietHeaderResponse = 2" "\<not> isSafetyQuery quietHeaderResponse"
  "weatherSummary quietHeaderResponse = None" "routeSummary quietHeaderResponse = None"
  "\<not> isDisasterQuery quietHeaderResponse"
  by (simp_all add: quietHeaderResponse_def verdict_defs dispatch_defs regex_defs)

lemma earthquake_question_facts:
  "disasterCount earthquakeQuestion = 3" "isSafetyQuery earthquakeQuestion"
  "weatherSummary earthquakeQuestion = None" "routeSummary earthquakeQuestion = None"
  "isDisasterQuery earthquakeQuestion"
  by (simp_all add: earthquakeQuestion_def verdict_defs dispatch_defs regex_defs)

lemma earthquake_question_list:
  "disasterList earthquakeQuestion
     = tornado @ js '' CURRENT GLOBAL DISASTERS:'' @ [10, 10]
       @ chart @ js '' DATA SOURCES: global_disaster_monitor''"
  by (simp add: earthquakeQuestion_def list_defs dispatch_defs regex_defs)

lemma advanced_contradictory:
  "simplifyBasicGPTResponse contradictoryResponse (js ''advanced'') = contradictoryResponse"
  by (simp add: contradictoryResponse_def dispatch_defs regex_defs)

text \<open>
  C1, counterexample. The claim gives every input with a count of active disasters above
  zero the UNSAFE verdict. The verdict is decided in the last branch of the function only.
  A response with a safe header that says nothing of travel fails the opening test of that
  branch and is returned as it is, header included; a question about travel that names
  EARTHQUAKES is answered by the disaster list before the branch is reached; and a message
  of the advanced model is returned without any verdict.
\<close>

theorem verdict_needs_the_safety_branch:
  "disasterCount quietHeaderResponse = 2
   \<and> simplifyBasicGPTResponse quietHeaderResponse (js ''basic'') = quietHeaderResponse
   \<and> disasterCount earthquakeQuestion = 3 \<and> isSafetyQuery earthquakeQuestion
   \<and> simplifyBasicGPTResponse earthquakeQuestion (js ''basic'')
        = tornado @ js '' CURRENT GLOBAL DISASTERS:'' @ [10, 10]
          @ chart @ js '' DATA SOURCES: global_disaster_monitor''
   \<and> disasterCount contradictoryResponse = 2 \<and> isSafetyQuery contradictoryResponse
   \<and> simplifyBasicGPTResponse contradictoryResponse (js ''advanced'') = contradictoryResponse"
proof -
  have "simplifyBasicGPTResponse quietHeaderResponse (js ''basic'') = quietHeaderResponse"
    by (simp add: simplifyBasicGPTResponse_def safetyQuerySummary_def quiet_header_facts)
  moreover have "simplifyBasicGPTResponse earthquakeQuestion (js ''basic'')
        = tornado @ js '' CURRENT GLOBAL DISASTERS:'' @ [10, 10]
          @ chart @ js '' DATA SOURCES: global_disaster_monitor''"
    by (simp add: simplifyBasicGPTResponse_def earthquake_question_facts earthquake_question_list)
  ultimately show ?thesis
    by (simp add: quiet_header_facts earthquake_question_facts contradictory_facts
        advanced_contradictory)
qed

text \<open>
  C1, as amended. For every response of the basic model that reaches the branch for safety
  queries (neither the weather nor the route extraction returns, and the response is no
  disaster query) and passes its opening test, a count of active disasters above zero
  decides what the function returns: the UNSAFE line naming that count, whatever header,
  risk level, keyword or other text the response contains, since no hypothesis is made
  about them; in particular none of the lines of the medium or safe tiers.
\<close>

theorem active_disasters_override:
  assumes "modelUsed = js ''basic''"
    and "weatherSummary response = None" and "routeSummary response = None"
    and "\<not> isDisasterQuery response" and "isSafetyQuery response"
    and "0 < disasterCount response"
  shows "simplifyBasicGPTResponse response modelUsed
           = crossMark @ js '' UNSAFE - '' @ numberToString (disasterCount response)
               @ js '' active disaster(s) affecting this location''
     \<and> safetyVerdict response = simplifyBasicGPTResponse response modelUsed
     \<and> simplifyBasicGPTResponse response modelUsed
          \<noteq> warningSign @ js '' NOT SAFE - Medium risk with active hazards''
     \<and> simplifyBasicGPTResponse response modelUsed
          \<noteq> warningSign @ js '' SAFE - Medium Risk (Exercise Caution)''
     \<and> simplifyBasicGPTResponse response modelUsed
          \<noteq> warningSign @ js '' NOT SAFE - Exercise caution''
     \<and> simplifyBasicGPTResponse response modelUsed
          \<noteq> checkMark @ js '' SAFE - Low Risk for Travel''"
  using assms
  by (simp add: simplifyBasicGPTResponse_def safetyQuerySummary_def safetyVerdict_def
      crossMark_def warningSign_def checkMark_def)

lemma numberToString_2: "numberToString 2 = js ''2''"
  by (simp add: numberToString.simps js_def)

text \<open>C1, witness: a response of the basic model with a SAFE header, a medium risk
  level, a storm and two active disasters.\<close>

theorem active_disasters_override_witness:
  "weatherSummary contradictoryResponse = None \<and> routeSummary contradictoryResponse = None
   \<and> \<not> isDisasterQuery contradictoryResponse
   \<and> isSafetyQuery contradictoryResponse \<and> disasterCount contradictoryResponse = 2
   \<and> hasMediumRisk contradictoryResponse \<and> hasDisasterKeywords contradictoryResponse
   \<and> mainSafetyVerdict contradictoryResponse = Some (checkMark, js ''SAFE'')
   \<and> simplifyBasicGPTResponse contradictoryResponse (js ''basic'')
        = crossMark @ js '' UNSAFE - 2 active disaster(s) affecting this location''"
proof -
  have "0 < disasterCount contradictoryResponse"
    by (simp add: contradictory_facts)
  from active_disasters_override [OF refl contradictory_dispatch contradictory_facts(1) this]
  show ?thesis
    by (simp add: contradictory_facts contradictory_dispatch numberToString_2 js_def)
qed

text \<open>
  The same dispatch for every other rule of the branch: what the function returns for a
  safety query of the basic model that reaches the branch is the verdict of the branch.
\<close>

lemma medium_risk_through_dispatch:
  assumes "weatherSummary response = None" and "routeSummary response = None"
    and "\<not> isDisasterQuery response" and "isSafetyQuery response"
  shows "simplifyBasicGPTResponse response (js ''basic'') = safetyVerdict response"
  using assms by (simp add: simplifyBasicGPTResponse_def safetyQuerySummary_def)








end
